theory Spec2Isabelle
  imports Complex_Main
begin

section \<open>Conventions\<close>

text \<open>
  The development embeds the bookkeeping core of the quantitative desk: the backtest
  engine of \<^verbatim>\<open>project_atlas\<close> (cost model, capital allocator, market simulator, strategies,
  trade and performance analysis) and the live engine of \<^verbatim>\<open>project_citadel\<close> (risk manager,
  chief investment officer, live strategies).

  Python \<^verbatim>\<open>float\<close> values are modelled as \<^typ>\<open>real\<close>, so every statement below is about
  exact arithmetic; a pandas \<^verbatim>\<open>NaN\<close> is \<^term>\<open>None\<close> of an option type.  Python \<^verbatim>\<open>int\<close>
  is \<^typ>\<open>int\<close>, \<^verbatim>\<open>str\<close> is \<^typ>\<open>string\<close>.  Logging calls write no state of the program and
  are left out.

  The repository holds the engines twice.  The definitions follow the files under
  \<^verbatim>\<open>quantitative_desk/\<close>; the one function taken from the older copy under
  \<^verbatim>\<open>Quant T py/quantitative_desk/\<close> has a name that starts with \<open>legacy\<close>.  Attribute names of
  different classes that coincide are told apart by a prefix (\<open>o_\<close> for an order, \<open>t_\<close> for a
  fill, \<open>live_\<close> for the live strategy).
\<close>

datatype py_error = KeyError | ValueError | IndexError | AttributeError | ZeroDivisionError

section \<open>Cost model (project\_atlas/infrastructure.py)\<close>

text \<open>The class constants of \<^verbatim>\<open>TransactionCostCalculator\<close>.\<close>

definition BROKERAGE_PCT :: real where "BROKERAGE_PCT = 3 / 10000"
definition STT_PCT :: real where "STT_PCT = 1 / 1000"
definition EXCHANGE_TXN_PCT :: real where "EXCHANGE_TXN_PCT = 345 / 10000000"
definition GST_PCT :: real where "GST_PCT = 18 / 100"
definition SEBI_FEES_PCT :: real where "SEBI_FEES_PCT = 1 / 1000000"
definition STAMP_DUTY_PCT :: real where "STAMP_DUTY_PCT = 15 / 100000"

definition stamp_duty :: "real \<Rightarrow> string \<Rightarrow> real" where
  "stamp_duty trade_value side = (if side = ''buy'' then trade_value * STAMP_DUTY_PCT else 0)"

definition calculate :: "real \<Rightarrow> string \<Rightarrow> real" where
  "calculate trade_value side =
     (let brokerage = trade_value * BROKERAGE_PCT;
          stt = trade_value * STT_PCT;
          exchange_txn_charge = trade_value * EXCHANGE_TXN_PCT;
          gst = (brokerage + exchange_txn_charge) * GST_PCT;
          sebi_fees = trade_value * SEBI_FEES_PCT
      in brokerage + stt + exchange_txn_charge + gst + sebi_fees + stamp_duty trade_value side)"

text \<open>
  \<^verbatim>\<open>FirmConfig.BacktestParameters.SLIPPAGE_BPS\<close>, and the slippage rate and the execution
  price as \<^verbatim>\<open>MarketSimulator\<close> computes them:
  \<^verbatim>\<open>self.slippage_bps = firm_config.BacktestParameters.SLIPPAGE_BPS / 10000\<close> and
  \<^verbatim>\<open>self.price * (1 + self.slippage_bps if order['side'] == 'buy' else 1 - self.slippage_bps)\<close>.
\<close>

definition SLIPPAGE_BPS :: int where "SLIPPAGE_BPS = 10"

definition slippage_rate :: "int \<Rightarrow> real" where
  "slippage_rate bps = of_int bps / 10000"

definition execution_price :: "real \<Rightarrow> real \<Rightarrow> string \<Rightarrow> real" where
  "execution_price slip p side = p * (if side = ''buy'' then 1 + slip else 1 - slip)"

section \<open>Backtest engine (project\_atlas)\<close>

subsection \<open>Strategy state (strategy\_library.py)\<close>

text \<open>
  \<^verbatim>\<open>StrategyConfig.TrendFollowing\<close> and \<^verbatim>\<open>StrategyConfig.MeanReversion\<close> (core\_config.py); the
  live parameter classes of core\_config\_citadel.py carry the same fields (and a
  \<^verbatim>\<open>RISK_PER_TRADE\<close> that no code reads).
\<close>

datatype strategy_config =
    TrendFollowing (SHORT_WINDOW: int) (LONG_WINDOW: int) (RSI_WINDOW: int)
      (RSI_BULLISH_THRESHOLD: real) (TAKE_PROFIT_PCT: real) (STOP_LOSS_PCT: real)
  | MeanReversion (WINDOW: int) (STD_DEV: real) (RSI_WINDOW: int)
      (RSI_OVERSOLD_THRESHOLD: real) (TAKE_PROFIT_PCT: real) (STOP_LOSS_PCT: real)

datatype atlas_class = AtlasTrendFollowing | AtlasMeanReversion

text \<open>The attributes of an \<^verbatim>\<open>AtlasStrategy\<close> object (\<^verbatim>\<open>id\<close> is \<open>sid\<close> here).\<close>

record AtlasStrategy =
  cls :: atlas_class
  sid :: string
  config :: strategy_config
  cash :: real
  shares :: int
  risk_per_trade :: real
  stop_loss_price :: real
  take_profit_price :: real

definition AtlasStrategy_init :: "atlas_class \<Rightarrow> string \<Rightarrow> strategy_config \<Rightarrow> AtlasStrategy" where
  "AtlasStrategy_init c name strategy_config =
     \<lparr>cls = c, sid = name, config = strategy_config, cash = 0, shares = 0,
      risk_per_trade = 2 / 100, stop_loss_price = 0, take_profit_price = 0\<rparr>"

definition get_equity :: "AtlasStrategy \<Rightarrow> real \<Rightarrow> real" where
  "get_equity s current_price = cash s + of_int (shares s) * current_price"

definition set_capital :: "AtlasStrategy \<Rightarrow> real \<Rightarrow> AtlasStrategy" where
  "set_capital s capital = s\<lparr>cash := capital, shares := 0\<rparr>"

definition clear_exit_prices :: "AtlasStrategy \<Rightarrow> AtlasStrategy" where
  "clear_exit_prices s = s\<lparr>stop_loss_price := 0, take_profit_price := 0\<rparr>"

subsection \<open>Capital allocator (infrastructure.py, PortfolioManager)\<close>

text \<open>
  \<^verbatim>\<open>self.strategies\<close> is a Python dict from the strategy name to the strategy object; it
  is an association list in insertion order with distinct keys, read with \<^const>\<open>map_of\<close>.
  \<open>dict_values_map\<close> is the loop \<^verbatim>\<open>for strategy in self.strategies.values(): ...\<close> that
  updates every object in place, \<open>dict_set\<close> an in-place update of the object stored
  under one key.
\<close>

definition dict_values_map :: "('v \<Rightarrow> 'v) \<Rightarrow> (string \<times> 'v) list \<Rightarrow> (string \<times> 'v) list" where
  "dict_values_map f d = map (\<lambda>(k, v). (k, f v)) d"

definition dict_set :: "string \<Rightarrow> 'v \<Rightarrow> (string \<times> 'v) list \<Rightarrow> (string \<times> 'v) list" where
  "dict_set k v d = map (\<lambda>(k', v'). if k' = k then (k', v) else (k', v')) d"

record PortfolioManager =
  initial_capital :: real
  strategies :: "(string \<times> AtlasStrategy) list"

text \<open>\<^verbatim>\<open>STRATEGY_REGISTRY\<close>: the name of each strategy family and its backtest class.\<close>

definition STRATEGY_REGISTRY :: "(string \<times> atlas_class) list" where
  "STRATEGY_REGISTRY = [(''Trend'', AtlasTrendFollowing), (''MeanReversion'', AtlasMeanReversion)]"

definition rebalance_capital :: "PortfolioManager \<Rightarrow> PortfolioManager" where
  "rebalance_capital pm =
     (if strategies pm = [] then pm
      else let capital_per_strategy = initial_capital pm / of_nat (length (strategies pm))
           in pm\<lparr>strategies := dict_values_map (\<lambda>s. set_capital s capital_per_strategy) (strategies pm)\<rparr>)"

text \<open>
  \<^verbatim>\<open>PortfolioManager.__init__\<close>: one strategy for every registry name that has a
  configuration, then the first rebalance.  \<open>FIRM_CAPITAL\<close> is the parameter
  \<open>firm_capital\<close>.
\<close>

definition PortfolioManager_init ::
  "real \<Rightarrow> (string \<rightharpoonup> strategy_config) \<Rightarrow> PortfolioManager" where
  "PortfolioManager_init firm_capital strategy_configs =
     rebalance_capital
       \<lparr>initial_capital = firm_capital,
        strategies = concat (map (\<lambda>(name, c).
            case strategy_configs name of
              None \<Rightarrow> []
            | Some cfg \<Rightarrow> [(name, AtlasStrategy_init c name cfg)]) STRATEGY_REGISTRY)\<rparr>"

definition get_total_equity :: "PortfolioManager \<Rightarrow> real \<Rightarrow> real" where
  "get_total_equity pm p = sum_list (map (\<lambda>(k, s). get_equity s p) (strategies pm))"

subsection \<open>Market simulator (infrastructure.py, MarketSimulator)\<close>

text \<open>An order of the queue, \<^verbatim>\<open>{'id': ..., 'side': ..., 'qty': ...}\<close>.\<close>

record order =
  o_id :: string
  o_side :: string
  o_qty :: int

text \<open>A fill of the trade log, \<^verbatim>\<open>{'id', 'side', 'qty', 'price', 'cost'}\<close>.\<close>

record trade =
  t_id :: string
  t_side :: string
  t_qty :: int
  t_price :: real
  t_cost :: real

record MarketSimulator =
  firm :: PortfolioManager
  order_queue :: "order list"
  trade_log :: "trade list"
  slippage_bps :: real
  price :: real

definition MarketSimulator_init :: "PortfolioManager \<Rightarrow> MarketSimulator" where
  "MarketSimulator_init portfolio_manager =
     \<lparr>firm = portfolio_manager, order_queue = [], trade_log = [],
      slippage_bps = slippage_rate SLIPPAGE_BPS, price = 0\<rparr>"

definition submit_order :: "MarketSimulator \<Rightarrow> string \<Rightarrow> string \<Rightarrow> int \<Rightarrow> MarketSimulator" where
  "submit_order m strategy_id side quantity =
     (if quantity > 0
      then m\<lparr>order_queue := order_queue m @ [\<lparr>o_id = strategy_id, o_side = side, o_qty = quantity\<rparr>]\<rparr>
      else m)"

definition put_strategy :: "MarketSimulator \<Rightarrow> string \<Rightarrow> AtlasStrategy \<Rightarrow> MarketSimulator" where
  "put_strategy m k s = m\<lparr>firm := (firm m)\<lparr>strategies := dict_set k s (strategies (firm m))\<rparr>\<rparr>"

text \<open>
  The body of the loop of \<^verbatim>\<open>execute_orders\<close> for one order.  \<^verbatim>\<open>self.firm.strategies[order['id']]\<close>
  raises \<^verbatim>\<open>KeyError\<close> for an unknown strategy id, before anything is written.
\<close>

definition execute_order :: "MarketSimulator \<Rightarrow> order \<Rightarrow> py_error + MarketSimulator" where
  "execute_order m ord =
     (case map_of (strategies (firm m)) (o_id ord) of
        None \<Rightarrow> Inl KeyError
      | Some strategy \<Rightarrow>
          let exec_price = execution_price (slippage_bps m) (price m) (o_side ord);
              trade_value = of_int (o_qty ord) * exec_price;
              transaction_cost = calculate trade_value (o_side ord)
          in if o_side ord = ''buy'' then
               let required_funds = trade_value + transaction_cost
               in if cash strategy \<ge> required_funds then
                    Inr ((put_strategy m (o_id ord)
                            (strategy\<lparr>shares := shares strategy + o_qty ord,
                                      cash := cash strategy - required_funds\<rparr>))
                          \<lparr>trade_log := trade_log m @
                             [\<lparr>t_id = o_id ord, t_side = ''buy'', t_qty = o_qty ord,
                               t_price = exec_price, t_cost = transaction_cost\<rparr>]\<rparr>)
                  else Inr m
             else if o_side ord = ''sell'' then
               if shares strategy \<ge> o_qty ord then
                 Inr ((put_strategy m (o_id ord)
                         (strategy\<lparr>shares := shares strategy - o_qty ord,
                                   cash := cash strategy + (trade_value - transaction_cost)\<rparr>))
                       \<lparr>trade_log := trade_log m @
                          [\<lparr>t_id = o_id ord, t_side = ''sell'', t_qty = o_qty ord,
                            t_price = exec_price, t_cost = transaction_cost\<rparr>]\<rparr>)
               else Inr m
             else Inr m)"

text \<open>
  The loop over \<^verbatim>\<open>orders_to_process\<close>.  An exception leaves the loop with the state
  reached so far, so the result is that state and the error, if any.
\<close>

fun process_orders :: "MarketSimulator \<Rightarrow> order list \<Rightarrow> MarketSimulator \<times> py_error option" where
  "process_orders m [] = (m, None)"
| "process_orders m (ord # rest) =
     (case execute_order m ord of
        Inl e \<Rightarrow> (m, Some e)
      | Inr m' \<Rightarrow> process_orders m' rest)"

definition execute_orders :: "MarketSimulator \<Rightarrow> MarketSimulator \<times> py_error option" where
  "execute_orders m =
     (if order_queue m = [] then (m, None)
      else process_orders (m\<lparr>order_queue := []\<rparr>) (order_queue m))"

text \<open>A sequence of calls of \<^verbatim>\<open>submit_order\<close>, each with its strategy id, side and quantity.\<close>

fun submit_all :: "MarketSimulator \<Rightarrow> (string \<times> string \<times> int) list \<Rightarrow> MarketSimulator" where
  "submit_all m [] = m"
| "submit_all m ((strategy_id, side, quantity) # rest) =
     submit_all (submit_order m strategy_id side quantity) rest"

section \<open>Live engine (project\_citadel)\<close>

subsection \<open>Risk manager (components\_citadel.py, RiskManager)\<close>

text \<open>
  \<^verbatim>\<open>LiveRiskParameters\<close> and the attributes of a \<^verbatim>\<open>RiskManager\<close>.  The \<^verbatim>\<open>Alerter\<close> only
  logs; \<open>alerts\<close> records the subject of every \<^verbatim>\<open>alerter.send\<close>, in order, so that alerts
  can be counted.
\<close>

record RiskManager =
  MAX_ORDER_VALUE :: real
  DAILY_DRAWDOWN_LIMIT :: real
  peak_equity :: real
  is_drawdown_breached :: bool
  alerts :: "string list"

definition RiskManager_init :: "real \<Rightarrow> real \<Rightarrow> RiskManager" where
  "RiskManager_init max_order_value daily_drawdown_limit =
     \<lparr>MAX_ORDER_VALUE = max_order_value, DAILY_DRAWDOWN_LIMIT = daily_drawdown_limit,
      peak_equity = 0, is_drawdown_breached = False, alerts = []\<rparr>"

definition assess_new_day :: "RiskManager \<Rightarrow> real \<Rightarrow> RiskManager" where
  "assess_new_day rm v = rm\<lparr>peak_equity := v, is_drawdown_breached := False\<rparr>"

text \<open>
  \<^verbatim>\<open>is_trade_allowed(side, quantity, price, portfolio_context)\<close> of
  quantitative\_desk/project\_citadel/components\_citadel.py.  The portfolio context is the
  calling \<^verbatim>\<open>ChiefInvestmentOfficer\<close>; the only attribute of it that any version of the
  function reads is \<^verbatim>\<open>current_value\<close>, which is what is passed here.  The function returns
  its answer and the risk manager as it leaves it.
\<close>

definition is_trade_allowed ::
  "RiskManager \<Rightarrow> string \<Rightarrow> int \<Rightarrow> real \<Rightarrow> real \<Rightarrow> bool \<times> RiskManager" where
  "is_trade_allowed rm side quantity p current_value =
     (let order_value = of_int quantity * p
      in if order_value > MAX_ORDER_VALUE rm
         then (False, rm\<lparr>alerts := alerts rm @ [''RISK VIOLATION'']\<rparr>)
         else (True, rm))"

text \<open>
  The same method in the older copy of the engine,
  Quant T py/quantitative\_desk/project\_citadel/components\_citadel.py, which checks the
  daily drawdown \<^verbatim>\<open>dd = (peak_equity - portfolio.current_value) / peak_equity if peak_equity > 0 else 0\<close>.
\<close>

definition drawdown :: "RiskManager \<Rightarrow> real \<Rightarrow> real" where
  "drawdown rm current_value =
     (if peak_equity rm > 0 then (peak_equity rm - current_value) / peak_equity rm else 0)"

definition legacy_is_trade_allowed ::
  "RiskManager \<Rightarrow> string \<Rightarrow> int \<Rightarrow> real \<Rightarrow> real \<Rightarrow> bool \<times> RiskManager" where
  "legacy_is_trade_allowed rm side qty p current_value =
     (let dd = drawdown rm current_value;
          rm' = (if dd > DAILY_DRAWDOWN_LIMIT rm \<and> \<not> is_drawdown_breached rm
                 then rm\<lparr>is_drawdown_breached := True, alerts := alerts rm @ [''RISK BREACH'']\<rparr>
                 else rm)
      in if is_drawdown_breached rm' \<and> side = ''buy'' then (False, rm')
         else if of_int qty * p > MAX_ORDER_VALUE rm' then (False, rm')
         else (True, rm'))"

text \<open>
  What happens to the risk manager of the older copy during a session.  Its
  \<^verbatim>\<open>on_market_data\<close> observes the equity at the start of every tick batch
  (\<^verbatim>\<open>self.current_value = self.get_total_equity()\<close>) and raises the peak
  (\<^verbatim>\<open>peak_equity = max(peak_equity, current_value)\<close>); its \<^verbatim>\<open>submit_order\<close> asks
  \<^verbatim>\<open>is_trade_allowed\<close> with the value last observed.  The state of a session is the risk
  manager and that value.
\<close>

datatype risk_event = EquityObserved real | TradeCheck string int real

fun legacy_session_step :: "RiskManager \<times> real \<Rightarrow> risk_event \<Rightarrow> RiskManager \<times> real" where
  "legacy_session_step (rm, current_value) (EquityObserved v) =
     (rm\<lparr>peak_equity := max (peak_equity rm) v\<rparr>, v)"
| "legacy_session_step (rm, current_value) (TradeCheck side qty p) =
     (snd (legacy_is_trade_allowed rm side qty p current_value), current_value)"

definition legacy_session :: "RiskManager \<Rightarrow> real \<Rightarrow> risk_event list \<Rightarrow> RiskManager \<times> real" where
  "legacy_session rm v evs = foldl legacy_session_step (assess_new_day rm v, v) evs"

subsection \<open>Live strategy state (strategies\_citadel.py, LiveStrategy)\<close>

text \<open>
  \<^verbatim>\<open>positions\<close>, \<^verbatim>\<open>stop_loss_prices\<close> and \<^verbatim>\<open>take_profit_prices\<close> are dictionaries keyed by the
  symbol; \<open>dict_get\<close> is \<^verbatim>\<open>d.get(key, default)\<close>.
\<close>

definition dict_get :: "('k \<rightharpoonup> 'v) \<Rightarrow> 'k \<Rightarrow> 'v \<Rightarrow> 'v" where
  "dict_get d k dflt = (case d k of None \<Rightarrow> dflt | Some v \<Rightarrow> v)"

record LiveStrategy =
  live_id :: string
  live_config :: strategy_config
  live_cash :: real
  positions :: "string \<rightharpoonup> int"
  live_risk_per_trade :: real
  stop_loss_prices :: "string \<rightharpoonup> real"
  take_profit_prices :: "string \<rightharpoonup> real"

definition set_exit_prices :: "LiveStrategy \<Rightarrow> string \<Rightarrow> real \<Rightarrow> LiveStrategy" where
  "set_exit_prices s symbol entry_price =
     s\<lparr>stop_loss_prices := (stop_loss_prices s)(symbol \<mapsto> entry_price * (1 - STOP_LOSS_PCT (live_config s))),
       take_profit_prices := (take_profit_prices s)(symbol \<mapsto> entry_price * (1 + TAKE_PROFIT_PCT (live_config s)))\<rparr>"

subsection \<open>Live settlement (components\_citadel.py, ChiefInvestmentOfficer.submit\_order)\<close>

text \<open>
  The attributes of the \<^verbatim>\<open>ChiefInvestmentOfficer\<close> that settlement reads or writes.  The
  line appended to \<^verbatim>\<open>live_trades.log\<close> and the JSON ledger written by
  \<^verbatim>\<open>_save_portfolio_to_disk\<close> are files outside the program state and are left out.
\<close>

record ChiefInvestmentOfficer =
  risk_manager :: RiskManager
  live_strategies :: "string \<rightharpoonup> LiveStrategy"
  last_known_prices :: "string \<rightharpoonup> real"
  current_value :: real
  trade_count :: nat

definition cio_submit_order ::
  "ChiefInvestmentOfficer \<Rightarrow> string \<Rightarrow> string \<Rightarrow> string \<Rightarrow> int
     \<Rightarrow> ChiefInvestmentOfficer \<times> py_error option" where
  "cio_submit_order c strategy_id symbol side quantity =
     (case last_known_prices c symbol of
        None \<Rightarrow> (c, None)
      | Some p \<Rightarrow>
          if p \<le> 0 then (c, None)
          else if quantity \<le> 0 then (c, None)
          else
            let (allowed, rm') = is_trade_allowed (risk_manager c) side quantity p (current_value c);
                c1 = c\<lparr>risk_manager := rm'\<rparr>
            in if allowed then
                 (case live_strategies c1 strategy_id of
                    None \<Rightarrow> (c1, Some KeyError)
                  | Some strategy \<Rightarrow>
                      let trade_value = of_int quantity * p
                      in if (side = ''buy'' \<and> live_cash strategy \<ge> trade_value) \<or>
                            (side = ''sell'' \<and> dict_get (positions strategy) symbol 0 \<ge> quantity)
                         then
                           let strategy' = strategy
                                 \<lparr>positions := (positions strategy)(symbol \<mapsto>
                                     dict_get (positions strategy) symbol 0 +
                                       (if side = ''buy'' then quantity else - quantity)),
                                  live_cash := live_cash strategy -
                                     (if side = ''buy'' then trade_value else - trade_value)\<rparr>
                           in (c1\<lparr>trade_count := trade_count c1 + 1,
                                   live_strategies := (live_strategies c1)(strategy_id \<mapsto> strategy')\<rparr>,
                               None)
                         else (c1, None))
               else (c1, None))"

text \<open>
  A sequence of calls of \<^verbatim>\<open>submit_order\<close> (strategy id, symbol, side, quantity); a call that
  raises ends the sequence, as the exception leaves \<^verbatim>\<open>on_market_data\<close>.
\<close>

fun cio_submit_all ::
  "ChiefInvestmentOfficer \<Rightarrow> (string \<times> string \<times> string \<times> int) list
     \<Rightarrow> ChiefInvestmentOfficer \<times> py_error option" where
  "cio_submit_all c [] = (c, None)"
| "cio_submit_all c ((strategy_id, symbol, side, quantity) # rest) =
     (case cio_submit_order c strategy_id symbol side quantity of
        (c', Some e) \<Rightarrow> (c', Some e)
      | (c', None) \<Rightarrow> cio_submit_all c' rest)"

section \<open>Trade and performance analysis (project\_atlas/analysis.py)\<close>

subsection \<open>Round-trip P\&L (TradeAnalyzer)\<close>

text \<open>
  \<^verbatim>\<open>raw_trades\<close> is a list of dictionaries, and the deques of \<^verbatim>\<open>open_buys\<close> hold references
  to those same dictionaries: \<^verbatim>\<open>buy_trade['qty'] -= match_qty\<close> writes the object that is also
  an element of \<^verbatim>\<open>raw_trades\<close>.  The model keeps the objects in a store, the list \<open>rt_trades\<close>,
  addressed by their position in \<^verbatim>\<open>raw_trades\<close>; a deque is a list of such addresses, oldest
  first, and \<^verbatim>\<open>defaultdict(deque)\<close> is a function whose default is the empty list.
\<close>

definition EPSILON :: real where "EPSILON = 1 / 1000000"

text \<open>
  The inner loop \<^verbatim>\<open>while sell_qty > 0 and open_buys[trade['id']]\<close> on the store, the deque of
  the sell's strategy id, the quantity left to sell and the P\&L so far.
\<close>

function match_loop ::
  "trade list \<Rightarrow> nat list \<Rightarrow> int \<Rightarrow> real \<Rightarrow> real \<Rightarrow> trade list \<times> nat list \<times> int \<times> real" where
  "match_loop store dq sell_qty sell_price rt_pnl =
     (if sell_qty > 0 \<and> dq \<noteq> [] then
        let buy_trade = store ! hd dq;
            match_qty = min sell_qty (t_qty buy_trade);
            rt_pnl' = rt_pnl + (sell_price - t_price buy_trade) * of_int match_qty;
            buy_qty' = t_qty buy_trade - match_qty;
            store' = store[hd dq := buy_trade\<lparr>t_qty := buy_qty'\<rparr>];
            sell_qty' = sell_qty - match_qty
        in match_loop store' (if of_int buy_qty' \<le> EPSILON then tl dq else dq)
             sell_qty' sell_price rt_pnl'
      else (store, dq, sell_qty, rt_pnl))"
  by pat_completeness auto
termination
proof (relation "measure (\<lambda>(store, dq, sell_qty, sell_price, rt_pnl).
          2 * length dq + (if sell_qty > 0 then 1 else 0))", goal_cases)
  case 1
  show ?case by simp
next
  case (2 store dq sell_qty sell_price rt_pnl buy_trade match_qty rt_pnl' buy_qty' store' sell_qty')
  have pos: "0 < length dq" "0 < sell_qty"
    using 2 by simp_all
  show ?case
  proof (cases "real_of_int buy_qty' \<le> EPSILON")
    case True
    then show ?thesis using pos by (cases dq) auto
  next
    case False
    then have "sell_qty' = 0"
      using 2 by (simp add: EPSILON_def min_def split: if_splits)
    then show ?thesis using False pos by simp
  qed
qed

declare match_loop.simps [simp del]

record round_trip =
  rt_trades :: "trade list"
  open_buys :: "string \<Rightarrow> nat list"
  pnl_list :: "real list"

text \<open>The body of \<^verbatim>\<open>for trade in self.raw_trades\<close> for the trade at position \<open>i\<close>.\<close>

definition round_trip_step :: "round_trip \<Rightarrow> nat \<Rightarrow> round_trip" where
  "round_trip_step s i =
     (let tr = rt_trades s ! i
      in if t_side tr = ''buy'' then
           s\<lparr>open_buys := (open_buys s)(t_id tr := open_buys s (t_id tr) @ [i])\<rparr>
         else if t_side tr = ''sell'' then
           if open_buys s (t_id tr) = [] then s
           else
             let (store', dq', sell_qty', rt_pnl) =
                   match_loop (rt_trades s) (open_buys s (t_id tr)) (t_qty tr) (t_price tr) 0
             in s\<lparr>rt_trades := store',
                  open_buys := (open_buys s)(t_id tr := dq'),
                  pnl_list := (if rt_pnl \<noteq> 0 then pnl_list s @ [rt_pnl] else pnl_list s)\<rparr>
         else s)"

definition round_trip_run :: "trade list \<Rightarrow> round_trip" where
  "round_trip_run raw_trades =
     foldl round_trip_step \<lparr>rt_trades = raw_trades, open_buys = (\<lambda>k. []), pnl_list = []\<rparr>
       [0..<length raw_trades]"

text \<open>
  What \<^verbatim>\<open>calculate_round_trip_pnl\<close> returns, and what it leaves behind: the objects of
  \<^verbatim>\<open>raw_trades\<close> after the call, and the buys still open for a strategy id when the loop
  ends, with the quantity and the price each of them then has.
\<close>

definition calculate_round_trip_pnl :: "trade list \<Rightarrow> real list" where
  "calculate_round_trip_pnl raw_trades = pnl_list (round_trip_run raw_trades)"

definition raw_trades_after :: "trade list \<Rightarrow> trade list" where
  "raw_trades_after raw_trades = rt_trades (round_trip_run raw_trades)"

definition lots_of :: "trade list \<Rightarrow> nat list \<Rightarrow> (int \<times> real) list" where
  "lots_of store dq = map (\<lambda>b. (t_qty (store ! b), t_price (store ! b))) dq"

definition open_buys_after :: "trade list \<Rightarrow> string \<Rightarrow> (int \<times> real) list" where
  "open_buys_after raw_trades k =
     lots_of (rt_trades (round_trip_run raw_trades)) (open_buys (round_trip_run raw_trades) k)"

subsection \<open>FIFO matching as the specification words it\<close>

text \<open>
  A second definition, from the words of the specification and not from the code: the open
  buys of a strategy are a queue of lots (quantity, price), oldest first.  A sell of
  quantity \<open>s\<close> at price \<open>p\<close> consumes the oldest lot first, partially or fully, realizes
  \<open>(p - buy price) * matched quantity\<close> for each match, and discards a matched lot once what
  remains of it is below the epsilon.  The result is the queue that is left and the P\&L
  realized.
\<close>

fun fifo_consume :: "(int \<times> real) list \<Rightarrow> int \<Rightarrow> real \<Rightarrow> (int \<times> real) list \<times> real" where
  "fifo_consume [] s p = ([], 0)"
| "fifo_consume ((q, bp) # lots) s p =
     (if s \<le> 0 then ((q, bp) # lots, 0)
      else
        let m = min s q
        in if of_int (q - m) < EPSILON
           then (let (lots', g) = fifo_consume lots (s - m) p in (lots', (p - bp) * of_int m + g))
           else ((q - m, bp) # lots, (p - bp) * of_int m))"

text \<open>
  The fills of a log in order: a buy joins the queue of its strategy id, a sell is matched
  against that queue.  \<open>fifo_realized\<close> lists the P\&L realized by each sell, in order.
\<close>

fun fifo_realized :: "(string \<Rightarrow> (int \<times> real) list) \<Rightarrow> trade list \<Rightarrow> real list" where
  "fifo_realized book [] = []"
| "fifo_realized book (tr # rest) =
     (if t_side tr = ''buy'' then
        fifo_realized (book(t_id tr := book (t_id tr) @ [(t_qty tr, t_price tr)])) rest
      else if t_side tr = ''sell'' then
        (let (lots', g) = fifo_consume (book (t_id tr)) (t_qty tr) (t_price tr)
         in g # fifo_realized (book(t_id tr := lots')) rest)
      else fifo_realized book rest)"

subsection \<open>The reductions of pandas\<close>

text \<open>
  \<^verbatim>\<open>Series.mean()\<close> and \<^verbatim>\<open>Series.std()\<close> (the sample standard deviation) belong to pandas, which
  computes them in binary64.  What they return is not the exact mean and standard deviation
  of the series: for three returns of 0.1 the mean that comes back is not 0.1 and the
  standard deviation is about \<open>1.7e-17\<close>, not 0.  So the two reductions are parameters of
  every function that calls them; their result \<^term>\<open>None\<close> is \<^verbatim>\<open>NaN\<close>.  The arithmetic that
  the program itself does on their results is exact, as everywhere.
\<close>

record pandas =
  Series_mean :: "real list \<Rightarrow> real option"
  Series_std :: "real list \<Rightarrow> real option"

subsection \<open>Sharpe and Sortino ratios (PerformanceAnalyzer.calculate\_metrics)\<close>




section \<open>Strategy decisions\<close>

subsection \<open>The numpy and pandas operations the strategies call\<close>

text \<open>
  A row of the price history carries \<^verbatim>\<open>High\<close>, \<^verbatim>\<open>Low\<close> and \<^verbatim>\<open>Close\<close> as numbers: in this model
  no cell of the history is \<^verbatim>\<open>NaN\<close> and the three columns are always there.  A value computed
  from the history can still be \<^verbatim>\<open>NaN\<close>, which is \<^term>\<open>None\<close>; a comparison with \<^verbatim>\<open>NaN\<close> is
  false.
\<close>

datatype Signal = BUY | SELL | HOLD

record bar =
  High :: real
  Low :: real
  Close :: real

definition gt_nan :: "real option \<Rightarrow> real option \<Rightarrow> bool" where
  "gt_nan a b = (case (a, b) of (Some x, Some y) \<Rightarrow> x > y | _ \<Rightarrow> False)"

definition lt_nan :: "real option \<Rightarrow> real option \<Rightarrow> bool" where
  "lt_nan a b = (case (a, b) of (Some x, Some y) \<Rightarrow> x < y | _ \<Rightarrow> False)"

text \<open>\<^verbatim>\<open>int(x)\<close> of a float truncates towards zero.\<close>

definition py_int :: "real \<Rightarrow> int" where
  "py_int x = (if x \<ge> 0 then \<lfloor>x\<rfloor> else \<lceil>x\<rceil>)"

text \<open>
  \<^verbatim>\<open>series.rolling(window=w).f().iloc[-1]\<close>: the value of \<open>f\<close> on the last \<open>w\<close> entries, \<^verbatim>\<open>NaN\<close>
  while fewer than \<open>w\<close> entries exist.  A negative window raises \<^verbatim>\<open>ValueError\<close>, and
  \<^verbatim>\<open>.iloc[-1]\<close> of an empty series raises \<^verbatim>\<open>IndexError\<close>.
\<close>

definition rolling_last ::
  "int \<Rightarrow> (real list \<Rightarrow> real option) \<Rightarrow> real list \<Rightarrow> py_error + real option" where
  "rolling_last w f xs =
     (if w < 0 then Inl ValueError
      else if xs = [] then Inl IndexError
      else if length xs < nat w then Inr None
      else Inr (f (drop (length xs - nat w) xs)))"

text \<open>
  \<^verbatim>\<open>np.gradient\<close> of a one-dimensional array with unit spacing: one-sided differences at the
  two ends, central differences inside; fewer than two elements raise \<^verbatim>\<open>ValueError\<close>.
\<close>

definition np_gradient :: "real list \<Rightarrow> py_error + real list" where
  "np_gradient xs =
     (if length xs < 2 then Inl ValueError
      else Inr (map (\<lambda>i. if i = 0 then xs ! 1 - xs ! 0
                          else if i = length xs - 1 then xs ! i - xs ! (i - 1)
                          else (xs ! (i + 1) - xs ! (i - 1)) / 2) [0..<length xs]))"

text \<open>
  The oscillator that both backtest strategies call RSI: \<^verbatim>\<open>np.sum(x[x > 0]) / (np.sum(np.abs(x[x < 0])) + 1e-9)\<close>
  over the last \<^verbatim>\<open>RSI_WINDOW\<close> gradients of the close, times 100.
\<close>

definition rsi_ratio :: "real list \<Rightarrow> real" where
  "rsi_ratio x =
     sum_list (filter (\<lambda>v. v > 0) x) /
       (sum_list (map abs (filter (\<lambda>v. v < 0) x)) + 1 / 1000000000)"

definition approx_rsi :: "int \<Rightarrow> real list \<Rightarrow> py_error + real option" where
  "approx_rsi rsi_window closes =
     (case np_gradient closes of
        Inl e \<Rightarrow> Inl e
      | Inr g \<Rightarrow>
          (case rolling_last rsi_window (\<lambda>x. Some (rsi_ratio x)) g of
             Inl e \<Rightarrow> Inl e
           | Inr r \<Rightarrow> Inr (map_option (\<lambda>v. v * 100) r)))"

text \<open>
  \<^verbatim>\<open>AtlasStrategy._calculate_atr\<close>.  The true range of the first row is \<^verbatim>\<open>High - Low\<close> (the two
  terms with the shifted close are \<^verbatim>\<open>NaN\<close> there and the row maximum skips them);
  \<^verbatim>\<open>ewm(alpha=1/period, adjust=False).mean()\<close> starts at the first value and then takes
  \<open>(1 - alpha) * previous + alpha * value\<close>.  The function is only ever called with
  \<^verbatim>\<open>period=14\<close>.
\<close>

fun true_range_from :: "real \<Rightarrow> bar list \<Rightarrow> real list" where
  "true_range_from prev_close [] = []"
| "true_range_from prev_close (b # bs) =
     max (High b - Low b) (max \<bar>High b - prev_close\<bar> \<bar>Low b - prev_close\<bar>)
       # true_range_from (Close b) bs"

fun true_range :: "bar list \<Rightarrow> real list" where
  "true_range [] = []"
| "true_range (b # bs) = (High b - Low b) # true_range_from (Close b) bs"

fun ewm_from :: "real \<Rightarrow> real \<Rightarrow> real list \<Rightarrow> real list" where
  "ewm_from alpha y [] = []"
| "ewm_from alpha y (x # xs) =
     ((1 - alpha) * y + alpha * x) # ewm_from alpha ((1 - alpha) * y + alpha * x) xs"

fun ewm_mean :: "real \<Rightarrow> real list \<Rightarrow> real list" where
  "ewm_mean alpha [] = []"
| "ewm_mean alpha (x # xs) = x # ewm_from alpha x xs"

definition calculate_atr :: "bar list \<Rightarrow> nat \<Rightarrow> py_error + real" where
  "calculate_atr history_df period =
     (if length history_df < period then Inr 0
      else if period = 0 then Inl ZeroDivisionError
      else
        let atr = ewm_mean (1 / of_nat period) (true_range history_df)
        in if atr \<noteq> [] then Inr (last atr) else Inr 0)"

subsection \<open>Backtest strategies (strategy\_library.py)\<close>

text \<open>
  \<^verbatim>\<open>decide_action(market_simulator)\<close> reads \<^verbatim>\<open>market_simulator.history\<close> and
  \<^verbatim>\<open>market_simulator.price\<close>, which are the arguments \<open>history\<close> and \<open>p\<close>; \<open>lib\<close> gives the
  \<^verbatim>\<open>mean()\<close> and \<^verbatim>\<open>std()\<close> of pandas that the rolling windows call.  It returns the
  signal and the quantity, and it arms or clears the exit prices of the strategy, so the
  strategy is returned too.  Reading a field that the configuration object does not have
  raises \<^verbatim>\<open>AttributeError\<close>; \<^verbatim>\<open>history_data['Close']\<close> on the frame of an empty history raises
  \<^verbatim>\<open>KeyError\<close>.
\<close>

definition trend_decide_action ::
  "pandas \<Rightarrow> AtlasStrategy \<Rightarrow> bar list \<Rightarrow> real \<Rightarrow> py_error + (Signal \<times> int \<times> AtlasStrategy)" where
  "trend_decide_action lib s history p =
     (case config s of
        MeanReversion w k rw othr tp sl \<Rightarrow> Inl AttributeError
      | TrendFollowing sw lw rw thr tp sl \<Rightarrow>
          if int (length history) < lw then Inr (HOLD, 0, s)
          else if history = [] then Inl KeyError
          else
            (case rolling_last sw (Series_mean lib) (map Close history) of
               Inl e \<Rightarrow> Inl e
             | Inr short_sma \<Rightarrow>
            (case rolling_last lw (Series_mean lib) (map Close history) of
               Inl e \<Rightarrow> Inl e
             | Inr long_sma \<Rightarrow>
                 if shares s = 0 then
                   (case approx_rsi rw (map Close history) of
                      Inl e \<Rightarrow> Inl e
                    | Inr rsi \<Rightarrow>
                        if gt_nan short_sma long_sma \<and> gt_nan rsi (Some thr) then
                          (case calculate_atr history 14 of
                             Inl e \<Rightarrow> Inl e
                           | Inr atr \<Rightarrow>
                               if atr > 0 then
                                 Inr (BUY, py_int ((cash s * risk_per_trade s) / atr),
                                      s\<lparr>stop_loss_price := p * (1 - sl),
                                        take_profit_price := p * (1 + tp)\<rparr>)
                               else Inr (HOLD, 0, s))
                        else Inr (HOLD, 0, s))
                 else if lt_nan short_sma long_sma then Inr (SELL, 0, clear_exit_prices s)
                 else Inr (HOLD, 0, s))))"

definition mean_reversion_decide_action ::
  "pandas \<Rightarrow> AtlasStrategy \<Rightarrow> bar list \<Rightarrow> real \<Rightarrow> py_error + (Signal \<times> int \<times> AtlasStrategy)" where
  "mean_reversion_decide_action lib s history p =
     (case config s of
        TrendFollowing sw lw rw thr tp sl \<Rightarrow> Inl AttributeError
      | MeanReversion w k rw othr tp sl \<Rightarrow>
          if int (length history) < w then Inr (HOLD, 0, s)
          else if history = [] then Inl KeyError
          else
            (case rolling_last w (Series_mean lib) (map Close history) of
               Inl e \<Rightarrow> Inl e
             | Inr sma \<Rightarrow>
            (case rolling_last w (Series_std lib) (map Close history) of
               Inl e \<Rightarrow> Inl e
             | Inr std_dev \<Rightarrow>
                 let lower_band =
                       (case (sma, std_dev) of (Some a, Some d) \<Rightarrow> Some (a - k * d) | _ \<Rightarrow> None)
                 in if shares s = 0 then
                      (case approx_rsi rw (map Close history) of
                         Inl e \<Rightarrow> Inl e
                       | Inr rsi \<Rightarrow>
                           if lt_nan (Some p) lower_band \<and> lt_nan rsi (Some othr) then
                             (case calculate_atr history 14 of
                                Inl e \<Rightarrow> Inl e
                              | Inr atr \<Rightarrow>
                                  if atr > 0 then
                                    Inr (BUY, py_int ((cash s * risk_per_trade s) / atr),
                                         s\<lparr>stop_loss_price := p * (1 - sl),
                                           take_profit_price := p * (1 + tp)\<rparr>)
                                  else Inr (HOLD, 0, s))
                           else Inr (HOLD, 0, s))
                    else if gt_nan (Some p) sma then Inr (SELL, 0, clear_exit_prices s)
                    else Inr (HOLD, 0, s))))"

text \<open>The dispatch on the class of the strategy object.\<close>

definition decide_action ::
  "pandas \<Rightarrow> AtlasStrategy \<Rightarrow> bar list \<Rightarrow> real \<Rightarrow> py_error + (Signal \<times> int \<times> AtlasStrategy)" where
  "decide_action lib s history p =
     (case cls s of
        AtlasTrendFollowing \<Rightarrow> trend_decide_action lib s history p
      | AtlasMeanReversion \<Rightarrow> mean_reversion_decide_action lib s history p)"

subsection \<open>Live strategies (strategies\_citadel.py)\<close>

text \<open>
  A tick as the brokers build it: a price and the history of closes, which
  \<^verbatim>\<open>tick.get('history')\<close> may find missing.  \<^verbatim>\<open>ta.rsi\<close> belongs to the library pandas\_ta and is
  the parameter \<open>ta_rsi\<close>: it returns nothing, or a series whose entries may be \<^verbatim>\<open>NaN\<close>.
  \<^verbatim>\<open>Series.tail(n)\<close> takes the last \<open>n\<close> entries, or all but the first \<open>-n\<close> for a negative \<open>n\<close>.
  The live \<^verbatim>\<open>decide_action\<close> returns the signal alone.
\<close>

record tick =
  tick_price :: real
  tick_history :: "real list option"

type_synonym ta_rsi = "real list \<Rightarrow> int \<Rightarrow> real option list option"

definition pd_tail :: "int \<Rightarrow> real list \<Rightarrow> real list" where
  "pd_tail n xs = (if n \<ge> 0 then drop (length xs - nat n) xs else drop (nat (- n)) xs)"

definition live_trend_decide_action ::
  "pandas \<Rightarrow> ta_rsi \<Rightarrow> LiveStrategy \<Rightarrow> string \<Rightarrow> tick \<Rightarrow> py_error + (Signal \<times> LiveStrategy)" where
  "live_trend_decide_action lib rsi_fn s symbol tk =
     (case live_config s of
        MeanReversion w k rw othr tp sl \<Rightarrow> Inl AttributeError
      | TrendFollowing sw lw rw thr tp sl \<Rightarrow>
          (case tick_history tk of
             None \<Rightarrow> Inr (HOLD, s)
           | Some history \<Rightarrow>
               if history = [] \<or> int (length history) < lw then Inr (HOLD, s)
               else
                 (case rsi_fn history rw of
                    None \<Rightarrow> Inr (HOLD, s)
                  | Some rsi \<Rightarrow>
                      if rsi = [] then Inr (HOLD, s)
                      else
                        let short_ma = Series_mean lib (pd_tail sw history);
                            long_ma = Series_mean lib (pd_tail lw history);
                            current_rsi = last rsi
                        in if gt_nan short_ma long_ma \<and> gt_nan current_rsi (Some thr)
                                \<and> dict_get (positions s) symbol 0 = 0
                           then Inr (BUY, set_exit_prices s symbol (tick_price tk))
                           else if lt_nan short_ma long_ma \<and> dict_get (positions s) symbol 0 > 0
                           then Inr (SELL, s)
                           else Inr (HOLD, s))))"

definition live_mean_reversion_decide_action ::
  "pandas \<Rightarrow> ta_rsi \<Rightarrow> LiveStrategy \<Rightarrow> string \<Rightarrow> tick \<Rightarrow> py_error + (Signal \<times> LiveStrategy)" where
  "live_mean_reversion_decide_action lib rsi_fn s symbol tk =
     (case live_config s of
        TrendFollowing sw lw rw thr tp sl \<Rightarrow> Inl AttributeError
      | MeanReversion w k rw othr tp sl \<Rightarrow>
          (case tick_history tk of
             None \<Rightarrow> Inr (HOLD, s)
           | Some history \<Rightarrow>
               if history = [] \<or> int (length history) < w then Inr (HOLD, s)
               else
                 (case rsi_fn history rw of
                    None \<Rightarrow> Inr (HOLD, s)
                  | Some rsi \<Rightarrow>
                      if rsi = [] then Inr (HOLD, s)
                      else
                        let prices_for_bands = pd_tail w history;
                            ma = Series_mean lib prices_for_bands;
                            std = Series_std lib prices_for_bands
                        in if std = Some 0 then Inr (HOLD, s)
                           else
                             let lower_band =
                                   (case (ma, std) of (Some a, Some d) \<Rightarrow> Some (a - k * d) | _ \<Rightarrow> None);
                                 upper_band =
                                   (case (ma, std) of (Some a, Some d) \<Rightarrow> Some (a + k * d) | _ \<Rightarrow> None);
                                 current_rsi = last rsi
                             in if lt_nan (Some (tick_price tk)) lower_band \<and> lt_nan current_rsi (Some othr)
                                     \<and> dict_get (positions s) symbol 0 = 0
                                then Inr (BUY, set_exit_prices s symbol (tick_price tk))
                                else if gt_nan (Some (tick_price tk)) upper_band
                                     \<and> dict_get (positions s) symbol 0 > 0
                                then Inr (SELL, s)
                                else Inr (HOLD, s))))"

section \<open>Predicates and example states of the statements\<close>

text \<open>
  Long-only, no margin: every strategy of the allocator has non-negative cash and
  non-negative shares; every live strategy has non-negative cash and a non-negative
  position in every symbol.
\<close>

definition long_only :: "PortfolioManager \<Rightarrow> bool" where
  "long_only pm = list_all (\<lambda>(k, s). 0 \<le> cash s \<and> 0 \<le> shares s) (strategies pm)"

definition live_long_only :: "ChiefInvestmentOfficer \<Rightarrow> bool" where
  "live_long_only c =
     (\<forall>k s. live_strategies c k = Some s \<longrightarrow>
        0 \<le> live_cash s \<and> (\<forall>symbol q. positions s symbol = Some q \<longrightarrow> 0 \<le> q))"

text \<open>
  The simulator after \<^verbatim>\<open>execute_orders\<close> has processed the first \<open>n\<close> orders of its queue.
\<close>

definition executed_prefix :: "MarketSimulator \<Rightarrow> nat \<Rightarrow> MarketSimulator" where
  "executed_prefix m n = fst (process_orders (m\<lparr>order_queue := []\<rparr>) (take n (order_queue m)))"

text \<open>
  Example states: the default configurations of core\_config.py, a simulator on a firm of
  1,000,000 at a price of 100, and a live engine with one strategy and one quoted symbol.
\<close>

definition example_configs :: "string \<rightharpoonup> strategy_config" where
  "example_configs =
     [''Trend'' \<mapsto> TrendFollowing 20 50 14 55 (5 / 100) (2 / 100),
      ''MeanReversion'' \<mapsto> MeanReversion 20 2 14 40 (3 / 100) (15 / 1000)]"

definition example_simulator :: MarketSimulator where
  "example_simulator =
     (MarketSimulator_init (PortfolioManager_init 1000000 example_configs))\<lparr>price := 100\<rparr>"

definition example_live_strategy :: LiveStrategy where
  "example_live_strategy =
     \<lparr>live_id = ''Trend'', live_config = TrendFollowing 20 50 14 55 (5 / 100) (2 / 100),
      live_cash = 500000, positions = Map.empty, live_risk_per_trade = 2 / 100,
      stop_loss_prices = Map.empty, take_profit_prices = Map.empty\<rparr>"

definition example_cio :: ChiefInvestmentOfficer where
  "example_cio =
     \<lparr>risk_manager = assess_new_day (RiskManager_init 200000 (5 / 100)) 1000000,
      live_strategies = [''Trend'' \<mapsto> example_live_strategy],
      last_known_prices = [''INFY.NS'' \<mapsto> 1500],
      current_value = 1000000, trade_count = 0\<rparr>"

text \<open>
  The queues of the specification after all fills of a log: what \<open>fifo_realized\<close> leaves
  open.
\<close>

fun fifo_book :: "(string \<Rightarrow> (int \<times> real) list) \<Rightarrow> trade list \<Rightarrow> string \<Rightarrow> (int \<times> real) list" where
  "fifo_book book [] = book"
| "fifo_book book (tr # rest) =
     (if t_side tr = ''buy'' then
        fifo_book (book(t_id tr := book (t_id tr) @ [(t_qty tr, t_price tr)])) rest
      else if t_side tr = ''sell'' then
        fifo_book (book(t_id tr := fst (fifo_consume (book (t_id tr)) (t_qty tr) (t_price tr)))) rest
      else fifo_book book rest)"

text \<open>
  The queues of lots that a state of the code's loop stands for, and the invariant of that
  loop before the trade at position \<open>i\<close>: the store has the length of the log; every deque
  holds distinct addresses of trades already visited, each of the deque's own strategy id;
  no trade ever changes its id, side or price; and the trades not yet visited are as
  recorded.
\<close>

definition book_of :: "round_trip \<Rightarrow> string \<Rightarrow> (int \<times> real) list" where
  "book_of s k = lots_of (rt_trades s) (open_buys s k)"

definition rt_inv :: "trade list \<Rightarrow> nat \<Rightarrow> round_trip \<Rightarrow> bool" where
  "rt_inv raw i s \<longleftrightarrow>
     length (rt_trades s) = length raw
     \<and> (\<forall>k. distinct (open_buys s k))
     \<and> (\<forall>k. \<forall>b\<in>set (open_buys s k). b < i \<and> b < length raw \<and> t_id (rt_trades s ! b) = k)
     \<and> (\<forall>j<length raw. t_id (rt_trades s ! j) = t_id (raw ! j)
            \<and> t_side (rt_trades s ! j) = t_side (raw ! j)
            \<and> t_price (rt_trades s ! j) = t_price (raw ! j))
     \<and> (\<forall>j<length raw. i \<le> j \<longrightarrow> rt_trades s ! j = raw ! j)"

text \<open>
  Example trade logs: the log of the specification's FIFO scenario, a break-even round
  trip, and a single profitable round trip.
\<close>

definition fifo_example :: "trade list" where
  "fifo_example =
     [\<lparr>t_id = ''Trend'', t_side = ''buy'', t_qty = 10, t_price = 100, t_cost = 0\<rparr>,
      \<lparr>t_id = ''Trend'', t_side = ''buy'', t_qty = 5, t_price = 110, t_cost = 0\<rparr>,
      \<lparr>t_id = ''Trend'', t_side = ''sell'', t_qty = 12, t_price = 120, t_cost = 0\<rparr>]"

definition break_even_log :: "trade list" where
  "break_even_log =
     [\<lparr>t_id = ''Trend'', t_side = ''buy'', t_qty = 10, t_price = 100, t_cost = 0\<rparr>,
      \<lparr>t_id = ''Trend'', t_side = ''sell'', t_qty = 10, t_price = 100, t_cost = 0\<rparr>,
      \<lparr>t_id = ''MeanReversion'', t_side = ''sell'', t_qty = 4, t_price = 130, t_cost = 0\<rparr>]"

definition round_trip_log :: "trade list" where
  "round_trip_log =
     [\<lparr>t_id = ''Trend'', t_side = ''buy'', t_qty = 10, t_price = 100, t_cost = 0\<rparr>,
      \<lparr>t_id = ''Trend'', t_side = ''sell'', t_qty = 10, t_price = 120, t_cost = 0\<rparr>]"

text \<open>
  Two states of the matching loop: before a sell of a strategy with no open buy, and before
  the sell of \<open>round_trip_log\<close>.
\<close>

definition unmatched_sell_state :: round_trip where
  "unmatched_sell_state =
     \<lparr>rt_trades = [\<lparr>t_id = ''MeanReversion'', t_side = ''sell'', t_qty = 4, t_price = 130, t_cost = 0\<rparr>],
      open_buys = (\<lambda>k. []), pnl_list = []\<rparr>"

definition matched_sell_state :: round_trip where
  "matched_sell_state =
     \<lparr>rt_trades = round_trip_log, open_buys = (\<lambda>k. [])(''Trend'' := [0]), pnl_list = []\<rparr>"

text \<open>
  A trade log as the simulator records it: the example simulator executes a buy of 10 and
  then a sell of 10 for the trend strategy.
\<close>

definition simulated_log :: "trade list" where
  "simulated_log =
     trade_log (fst (execute_orders
       (submit_all example_simulator [(''Trend'', ''buy'', 10), (''Trend'', ''sell'', 10)])))"

text \<open>
  A risk manager at the start of a day with peak equity 1,000,000, an order value limit of
  200,000 and a drawdown limit of 5 per cent; and a session in which the equity falls by 10
  and then 20 per cent between trade checks.
\<close>

definition example_risk_manager :: RiskManager where
  "example_risk_manager = assess_new_day (RiskManager_init 200000 (5 / 100)) 1000000"

definition example_session :: "risk_event list" where
  "example_session =
     [EquityObserved 1000000, TradeCheck ''buy'' 10 100,
      EquityObserved 900000, TradeCheck ''buy'' 10 100,
      EquityObserved 800000, TradeCheck ''sell'' 10 100, TradeCheck ''buy'' 1 1]"

text \<open>
  The condition of the live strategies' warm-up on a tick: no history at all, or a history
  shorter than the window.
\<close>

definition short_history :: "tick \<Rightarrow> int \<Rightarrow> bool" where
  "short_history tk window =
     (case tick_history tk of None \<Rightarrow> True | Some history \<Rightarrow> int (length history) < window)"

text \<open>
  Example inputs of the decisions: a trend strategy with windows 2 and 3 on three rising
  bars (an entry, with fewer than 14 bars for the average true range), the default
  strategies of both families, a tick with two closes, and an RSI function that returns
  nothing.
\<close>

definition small_trend_strategy :: AtlasStrategy where
  "small_trend_strategy =
     set_capital (AtlasStrategy_init AtlasTrendFollowing ''Trend''
        (TrendFollowing 2 3 2 55 (5 / 100) (2 / 100))) 500000"

definition rising_history :: "bar list" where
  "rising_history =
     [\<lparr>High = 1, Low = 1, Close = 1\<rparr>, \<lparr>High = 2, Low = 2, Close = 2\<rparr>,
      \<lparr>High = 6, Low = 6, Close = 6\<rparr>]"

definition example_mr_strategy :: AtlasStrategy where
  "example_mr_strategy =
     set_capital (AtlasStrategy_init AtlasMeanReversion ''MeanReversion''
        (MeanReversion 20 2 14 40 (3 / 100) (15 / 1000))) 500000"

definition example_trend_strategy :: AtlasStrategy where
  "example_trend_strategy =
     set_capital (AtlasStrategy_init AtlasTrendFollowing ''Trend''
        (TrendFollowing 20 50 14 55 (5 / 100) (2 / 100))) 500000"

definition example_live_mr_strategy :: LiveStrategy where
  "example_live_mr_strategy =
     example_live_strategy\<lparr>live_id := ''MeanReversion'',
        live_config := MeanReversion 20 2 14 40 (3 / 100) (15 / 1000)\<rparr>"

definition short_tick :: tick where
  "short_tick = \<lparr>tick_price = 1500, tick_history = Some [1499, 1500]\<rparr>"

definition no_rsi :: ta_rsi where
  "no_rsi history n = None"

text \<open>
  Two instances of the reductions of pandas for the examples.  \<open>exact_pandas\<close> returns the
  exact mean and the exact sample standard deviation (\<^verbatim>\<open>ddof=1\<close>), \<^verbatim>\<open>NaN\<close> where they divide
  by zero; it is what pandas returns on the series of the examples that use it, where no
  binary64 operation rounds (means and deviations that are small multiples of 1/2).
  \<open>binary64_tenths\<close> is what binary64 arithmetic returns on the series of three returns
  of 0.1, that is of \<open>tenth\<close>, the binary64 number nearest to 0.1: the sum divided by 3, and
  the square root of half the sum of the squared deviations from it, each operation
  rounded to nearest.
\<close>

definition exact_mean :: "real list \<Rightarrow> real option" where
  "exact_mean xs = (if xs = [] then None else Some (sum_list xs / of_nat (length xs)))"

definition exact_std :: "real list \<Rightarrow> real option" where
  "exact_std xs =
     (if length xs < 2 then None
      else let mu = sum_list xs / of_nat (length xs)
           in Some (sqrt (sum_list (map (\<lambda>x. (x - mu)\<^sup>2) xs) / of_nat (length xs - 1))))"

definition exact_pandas :: pandas where
  "exact_pandas = \<lparr>Series_mean = exact_mean, Series_std = exact_std\<rparr>"



section \<open>Facts about the cost model\<close>

lemma calculate_rate:
  "calculate tv side = tv * (139571 / 100000000 + (if side = ''buy'' then 15 / 100000 else 0))"
  by (simp add: calculate_def stamp_duty_def BROKERAGE_PCT_def STT_PCT_def EXCHANGE_TXN_PCT_def
      GST_PCT_def SEBI_FEES_PCT_def STAMP_DUTY_PCT_def algebra_simps)

lemma calculate_nonneg: "0 \<le> tv \<Longrightarrow> 0 \<le> calculate tv side"
  by (simp add: calculate_rate)

lemma calculate_le: "0 \<le> tv \<Longrightarrow> calculate tv side \<le> tv"
proof -
  assume tv: "0 \<le> tv"
  have "139571 / 100000000 + (if side = ''buy'' then 15 / 100000 else 0) \<le> (1::real)" by simp
  then have "tv * (139571 / 100000000 + (if side = ''buy'' then 15 / 100000 else 0)) \<le> tv * 1"
    using tv by (rule mult_left_mono)
  then show ?thesis by (simp add: calculate_rate)
qed

section \<open>Settlement keeps every strategy long-only\<close>

lemma execution_price_nonneg:
  "0 \<le> p \<Longrightarrow> slip \<le> 1 \<Longrightarrow> side \<noteq> ''buy'' \<Longrightarrow> 0 \<le> execution_price slip p side"
  by (simp add: execution_price_def)

lemma long_only_dict_set:
  assumes "long_only pm" "0 \<le> cash s'" "0 \<le> shares s'"
  shows "long_only (pm\<lparr>strategies := dict_set k s' (strategies pm)\<rparr>)"
  using assms by (fastforce simp: long_only_def dict_set_def list_all_iff split: if_splits)

lemma long_only_lookup:
  "long_only pm \<Longrightarrow> map_of (strategies pm) k = Some s \<Longrightarrow> 0 \<le> cash s \<and> 0 \<le> shares s"
  by (auto simp: long_only_def list_all_iff dest!: map_of_SomeD)

lemma execute_order_long_only:
  assumes inv: "long_only (firm m)" and p: "0 < price m" and slip: "slippage_bps m \<le> 1"
    and q: "0 < o_qty ord" and ex: "execute_order m ord = Inr m'"
  shows "long_only (firm m')"
proof (cases "map_of (strategies (firm m)) (o_id ord)")
  case None
  then show ?thesis using ex by (simp add: execute_order_def)
next
  case (Some strategy)
  have s0: "0 \<le> cash strategy" "0 \<le> shares strategy"
    using long_only_lookup[OF inv Some] by simp_all
  show ?thesis
  proof (cases "o_side ord = ''buy''")
    case True
    then show ?thesis
      using ex Some inv s0 q
      by (auto simp: execute_order_def Let_def put_strategy_def intro!: long_only_dict_set split: if_splits)
  next
    case nb: False
    show ?thesis
    proof (cases "o_side ord = ''sell'' \<and> shares strategy \<ge> o_qty ord")
      case False
      then show ?thesis using ex Some inv nb by (auto simp: execute_order_def Let_def split: if_splits)
    next
      case True
      define tv where "tv = of_int (o_qty ord) * execution_price (slippage_bps m) (price m) (o_side ord)"
      have "0 \<le> execution_price (slippage_bps m) (price m) (o_side ord)"
        using p slip nb by (intro execution_price_nonneg) simp_all
      then have tv0: "0 \<le> tv" using q by (simp add: tv_def)
      have "calculate tv (o_side ord) \<le> tv" using tv0 by (rule calculate_le)
      then have "0 \<le> cash strategy + (tv - calculate tv (o_side ord))" using s0 by simp
      then show ?thesis
        using ex Some inv nb True
        by (auto simp: execute_order_def Let_def put_strategy_def tv_def intro!: long_only_dict_set)
    qed
  qed
qed


lemma execute_order_frame:
  "execute_order m ord = Inr m' \<Longrightarrow>
     price m' = price m \<and> slippage_bps m' = slippage_bps m \<and> order_queue m' = order_queue m"
  by (auto simp: execute_order_def Let_def put_strategy_def split: option.splits if_splits)

lemma process_orders_long_only:
  assumes "long_only (firm m)" "0 < price m" "slippage_bps m \<le> 1" "\<forall>ord\<in>set ords. 0 < o_qty ord"
  shows "long_only (firm (fst (process_orders m ords)))"
  using assms
proof (induction ords arbitrary: m)
  case Nil
  then show ?case by simp
next
  case (Cons ord rest)
  show ?case
  proof (cases "execute_order m ord")
    case (Inl e)
    then show ?thesis using Cons.prems by simp
  next
    case (Inr m')
    have "long_only (firm m')"
      using execute_order_long_only[OF Cons.prems(1-3) _ Inr] Cons.prems(4) by simp
    moreover have "0 < price m'" "slippage_bps m' \<le> 1"
      using execute_order_frame[OF Inr] Cons.prems by simp_all
    ultimately have "long_only (firm (fst (process_orders m' rest)))"
      using Cons.IH Cons.prems(4) by simp
    then show ?thesis using Inr by simp
  qed
qed

lemma submit_order_queue_positive:
  "\<forall>ord\<in>set (order_queue m). 0 < o_qty ord \<Longrightarrow>
   \<forall>ord\<in>set (order_queue (submit_order m i sd q)). 0 < o_qty ord"
  by (simp add: submit_order_def)

lemma submit_order_frame:
  "firm (submit_order m i sd q) = firm m \<and> price (submit_order m i sd q) = price m
   \<and> slippage_bps (submit_order m i sd q) = slippage_bps m"
  by (simp add: submit_order_def)

lemma submit_all_queue_positive:
  "\<forall>ord\<in>set (order_queue m). 0 < o_qty ord \<Longrightarrow>
   \<forall>ord\<in>set (order_queue (submit_all m reqs)). 0 < o_qty ord"
proof (induction reqs arbitrary: m)
  case Nil
  then show ?case by simp
next
  case (Cons r reqs)
  obtain i sd q where r: "r = (i, sd, q)" by (cases r)
  show ?case
    using Cons.IH[OF submit_order_queue_positive[OF Cons.prems, of i sd q]] by (simp add: r)
qed

lemma submit_all_frame:
  "firm (submit_all m reqs) = firm m \<and> price (submit_all m reqs) = price m
   \<and> slippage_bps (submit_all m reqs) = slippage_bps m"
proof (induction reqs arbitrary: m)
  case Nil
  then show ?case by simp
next
  case (Cons r reqs)
  obtain i sd q where r: "r = (i, sd, q)" by (cases r)
  show ?case using Cons.IH[of "submit_order m i sd q"] by (simp add: r submit_order_frame)
qed

lemma slippage_rate_config: "slippage_rate SLIPPAGE_BPS = 1 / 1000"
  by (simp add: slippage_rate_def SLIPPAGE_BPS_def)

lemma cio_submit_order_long_only:
  assumes "live_long_only c"
  shows "live_long_only (fst (cio_submit_order c strategy_id symbol side quantity))"
proof -
  have "\<And>k s. live_strategies (fst (cio_submit_order c strategy_id symbol side quantity)) k = Some s
          \<Longrightarrow> 0 \<le> live_cash s \<and> (\<forall>sym q. positions s sym = Some q \<longrightarrow> 0 \<le> q)"
  proof -
    fix k s
    assume h: "live_strategies (fst (cio_submit_order c strategy_id symbol side quantity)) k = Some s"
    show "0 \<le> live_cash s \<and> (\<forall>sym q. positions s sym = Some q \<longrightarrow> 0 \<le> q)"
      using h assms
      unfolding live_long_only_def cio_submit_order_def is_trade_allowed_def Let_def dict_get_def
      by (auto split: option.splits if_splits prod.splits simp: mult_nonneg_nonneg less_imp_le)
  qed
  then show ?thesis unfolding live_long_only_def by blast
qed


lemma cio_submit_all_long_only:
  "live_long_only c \<Longrightarrow> live_long_only (fst (cio_submit_all c calls))"
proof (induction calls arbitrary: c)
  case Nil
  then show ?case by simp
next
  case (Cons call rest)
  obtain i sym sd q where call: "call = (i, sym, sd, q)" by (cases call)
  obtain c' r where step: "cio_submit_order c i sym sd q = (c', r)" by (cases "cio_submit_order c i sym sd q")
  have c': "live_long_only c'"
    using cio_submit_order_long_only[OF Cons.prems, of i sym sd q] step by simp
  show ?case
  proof (cases r)
    case None
    then show ?thesis using Cons.IH[OF c'] step call by simp
  next
    case (Some e)
    then show ?thesis using c' step call by simp
  qed
qed

text \<open>
  C1.  Long-only, no margin, in both settlement paths.  Backtest: take a simulator as its
  constructor and \<^verbatim>\<open>run\<close> leave it before the orders of a bar (the slippage of the
  configuration, an empty queue), at a positive price, with every strategy holding
  non-negative cash and shares; submit any sequence of orders with \<^verbatim>\<open>submit_order\<close>; then
  after every order that \<^verbatim>\<open>execute_orders\<close> processes, and when it returns, every strategy
  still has non-negative cash and shares.  Live: from a state where every strategy has
  non-negative cash and positions, after every call of
  \<^verbatim>\<open>ChiefInvestmentOfficer.submit_order\<close> of any sequence of calls this is still so (the
  method itself refuses a price that is not positive).
\<close>

theorem long_only_no_margin:
  assumes "0 < price m" and "slippage_bps m = slippage_rate SLIPPAGE_BPS"
    and "order_queue m = []" and "long_only (firm m)" and "live_long_only c"
  shows "(\<forall>n. long_only (firm (executed_prefix (submit_all m reqs) n)))
       \<and> long_only (firm (fst (execute_orders (submit_all m reqs))))
       \<and> (\<forall>n. live_long_only (fst (cio_submit_all c (take n calls))))"
proof -
  let ?m = "submit_all m reqs"
  have fr: "firm ?m = firm m" "price ?m = price m" "slippage_bps ?m = slippage_bps m"
    using submit_all_frame[of m reqs] by simp_all
  have pos: "\<forall>ord\<in>set (order_queue ?m). 0 < o_qty ord"
    by (rule submit_all_queue_positive) (simp add: assms(3))
  have slip: "slippage_bps m \<le> 1"
    by (simp add: assms(2) slippage_rate_config)
  have pre: "long_only (firm (?m\<lparr>order_queue := []\<rparr>))" "0 < price (?m\<lparr>order_queue := []\<rparr>)"
    "slippage_bps (?m\<lparr>order_queue := []\<rparr>) \<le> 1"
    using fr assms slip by simp_all
  have a: "long_only (firm (executed_prefix ?m n))" for n
    unfolding executed_prefix_def
    by (rule process_orders_long_only[OF pre]) (use pos in \<open>auto dest: in_set_takeD\<close>)
  have b: "long_only (firm (fst (execute_orders ?m)))"
    unfolding execute_orders_def
    using process_orders_long_only[OF pre pos] fr assms(4) by simp
  have c: "live_long_only (fst (cio_submit_all c (take n calls)))" for n
    by (rule cio_submit_all_long_only[OF assms(5)])
  show ?thesis using a b c by blast
qed

theorem long_only_no_margin_witness:
  "0 < price example_simulator
   \<and> slippage_bps example_simulator = slippage_rate SLIPPAGE_BPS
   \<and> order_queue example_simulator = []
   \<and> long_only (firm example_simulator)
   \<and> live_long_only example_cio
   \<and> (\<forall>n. long_only (firm (executed_prefix
         (submit_all example_simulator
            [(''Trend'', ''buy'', 10), (''Trend'', ''sell'', 4), (''MeanReversion'', ''sell'', 5),
             (''Trend'', ''buy'', - 3)]) n)))
   \<and> long_only (firm (fst (execute_orders
         (submit_all example_simulator
            [(''Trend'', ''buy'', 10), (''Trend'', ''sell'', 4), (''MeanReversion'', ''sell'', 5),
             (''Trend'', ''buy'', - 3)]))))
   \<and> (\<forall>n. live_long_only (fst (cio_submit_all example_cio
         (take n [(''Trend'', ''INFY.NS'', ''buy'', 100), (''Trend'', ''INFY.NS'', ''sell'', 150),
                  (''Trend'', ''INFY.NS'', ''sell'', 40)]))))"
proof -
  have h1: "0 < price example_simulator"
    by (simp add: example_simulator_def)
  have h2: "slippage_bps example_simulator = slippage_rate SLIPPAGE_BPS"
    by (simp add: example_simulator_def MarketSimulator_init_def)
  have h3: "order_queue example_simulator = []"
    by (simp add: example_simulator_def MarketSimulator_init_def)
  have h4: "long_only (firm example_simulator)"
    by (simp add: example_simulator_def MarketSimulator_init_def PortfolioManager_init_def
        example_configs_def STRATEGY_REGISTRY_def rebalance_capital_def dict_values_map_def
        set_capital_def AtlasStrategy_init_def long_only_def)
  have h5: "live_long_only example_cio"
    by (simp add: live_long_only_def example_cio_def example_live_strategy_def)
  show ?thesis
    using long_only_no_margin[OF h1 h2 h3 h4 h5,
        where reqs = "[(''Trend'', ''buy'', 10), (''Trend'', ''sell'', 4), (''MeanReversion'', ''sell'', 5),
             (''Trend'', ''buy'', - 3)]"
          and calls = "[(''Trend'', ''INFY.NS'', ''buy'', 100), (''Trend'', ''INFY.NS'', ''sell'', 150),
                  (''Trend'', ''INFY.NS'', ''sell'', 40)]"]
      h1 h2 h3 h4 h5 by blast
qed

section \<open>Failed settlement in the backtest\<close>

text \<open>
  C2.  For an order of a known strategy, with the notional and the cost that
  \<^verbatim>\<open>execute_orders\<close> computes: a buy whose notional plus cost exceeds the cash, and a sell of
  more shares than are held, leave the simulator exactly as it was (no fill in the trade
  log, cash and shares unchanged) and the loop goes on with the next order; a fill is
  appended only for a buy with cash \<open>\<ge>\<close> notional + cost or a sell with shares \<open>\<ge>\<close>
  quantity; and the order raises no error.
\<close>

theorem failed_settlement_atomic:
  assumes "map_of (strategies (firm m)) (o_id ord) = Some strategy"
    and "trade_value = of_int (o_qty ord) * execution_price (slippage_bps m) (price m) (o_side ord)"
    and "transaction_cost = calculate trade_value (o_side ord)"
  shows "(o_side ord = ''buy'' \<and> cash strategy < trade_value + transaction_cost
            \<longrightarrow> execute_order m ord = Inr m \<and> process_orders m (ord # rest) = process_orders m rest)
       \<and> (o_side ord = ''sell'' \<and> shares strategy < o_qty ord
            \<longrightarrow> execute_order m ord = Inr m \<and> process_orders m (ord # rest) = process_orders m rest)
       \<and> (\<forall>m'. execute_order m ord = Inr m' \<and> trade_log m' \<noteq> trade_log m
            \<longrightarrow> (o_side ord = ''buy'' \<and> cash strategy \<ge> trade_value + transaction_cost)
                \<or> (o_side ord = ''sell'' \<and> shares strategy \<ge> o_qty ord))
       \<and> (\<exists>m'. execute_order m ord = Inr m')"
  using assms by (auto simp: execute_order_def Let_def)

theorem failed_settlement_atomic_witness:
  "map_of (strategies (firm example_simulator)) ''Trend'' =
     Some (set_capital (AtlasStrategy_init AtlasTrendFollowing ''Trend''
             (TrendFollowing 20 50 14 55 (5 / 100) (2 / 100))) 500000)
   \<and> cash (set_capital (AtlasStrategy_init AtlasTrendFollowing ''Trend''
             (TrendFollowing 20 50 14 55 (5 / 100) (2 / 100))) 500000)
        < of_int 5000 * execution_price (slippage_bps example_simulator) (price example_simulator) ''buy''
          + calculate (of_int 5000 * execution_price (slippage_bps example_simulator) (price example_simulator) ''buy'') ''buy''
   \<and> execute_order example_simulator \<lparr>o_id = ''Trend'', o_side = ''buy'', o_qty = 5000\<rparr>
        = Inr example_simulator
   \<and> shares (set_capital (AtlasStrategy_init AtlasTrendFollowing ''Trend''
             (TrendFollowing 20 50 14 55 (5 / 100) (2 / 100))) 500000) < 7
   \<and> execute_order example_simulator \<lparr>o_id = ''Trend'', o_side = ''sell'', o_qty = 7\<rparr>
        = Inr example_simulator"
proof -
  let ?s = "set_capital (AtlasStrategy_init AtlasTrendFollowing ''Trend''
             (TrendFollowing 20 50 14 55 (5 / 100) (2 / 100))) 500000"
  have h: "map_of (strategies (firm example_simulator)) ''Trend'' = Some ?s"
    by (simp add: example_simulator_def MarketSimulator_init_def PortfolioManager_init_def
        example_configs_def STRATEGY_REGISTRY_def rebalance_capital_def dict_values_map_def)
  have c: "cash ?s = 500000" "shares ?s = 0"
    by (simp_all add: set_capital_def AtlasStrategy_init_def)
  have ep: "execution_price (slippage_bps example_simulator) (price example_simulator) ''buy'' = 1001 / 10"
    by (simp add: example_simulator_def MarketSimulator_init_def execution_price_def
        slippage_rate_def SLIPPAGE_BPS_def)
  have lt: "cash ?s < of_int 5000 * execution_price (slippage_bps example_simulator) (price example_simulator) ''buy''
          + calculate (of_int 5000 * execution_price (slippage_bps example_simulator) (price example_simulator) ''buy'') ''buy''"
    unfolding ep c by (simp add: calculate_rate)
  have b: "execute_order example_simulator \<lparr>o_id = ''Trend'', o_side = ''buy'', o_qty = 5000\<rparr>
        = Inr example_simulator"
    using failed_settlement_atomic[of example_simulator "\<lparr>o_id = ''Trend'', o_side = ''buy'', o_qty = 5000\<rparr>" ?s,
        OF _ refl refl] h lt by simp
  have s: "execute_order example_simulator \<lparr>o_id = ''Trend'', o_side = ''sell'', o_qty = 7\<rparr>
        = Inr example_simulator"
    using failed_settlement_atomic[of example_simulator "\<lparr>o_id = ''Trend'', o_side = ''sell'', o_qty = 7\<rparr>" ?s,
        OF _ refl refl] h c by simp
  show ?thesis using h lt b s c by simp
qed

section \<open>The cost model as applied\<close>

text \<open>
  C5.  The simulator is built with the configured slippage of 10 basis points; at that
  rate the execution price of a buy is the reference price times 1.001 and of a sell the
  reference price times 0.999.  \<^verbatim>\<open>TransactionCostCalculator.calculate\<close> is a function of the
  trade value and the side alone (it is a function of the logic, with no state to read); it
  is never negative for a non-negative trade value; the cost of a buy is the cost of a sell
  plus the stamp duty, and for every side other than \<^verbatim>\<open>'buy'\<close> the stamp duty is zero.  Every
  fill that \<^verbatim>\<open>execute_orders\<close> records carries that execution price and that cost.
\<close>

theorem cost_model_applied:
  "slippage_bps (MarketSimulator_init pm) = slippage_rate 10
   \<and> execution_price (slippage_rate 10) reference_price ''buy'' = reference_price * (1001 / 1000)
   \<and> execution_price (slippage_rate 10) reference_price ''sell'' = reference_price * (999 / 1000)
   \<and> (0 \<le> trade_value \<longrightarrow> 0 \<le> calculate trade_value side)
   \<and> calculate trade_value ''buy'' = calculate trade_value ''sell'' + trade_value * STAMP_DUTY_PCT
   \<and> stamp_duty trade_value ''buy'' = trade_value * STAMP_DUTY_PCT
   \<and> (side \<noteq> ''buy'' \<longrightarrow> stamp_duty trade_value side = 0
         \<and> calculate trade_value side = calculate trade_value ''sell'')
   \<and> (\<forall>m'. execute_order m ord = Inr m' \<and> trade_log m' \<noteq> trade_log m \<longrightarrow>
          t_price (last (trade_log m')) = execution_price (slippage_bps m) (price m) (o_side ord)
          \<and> t_cost (last (trade_log m')) =
              calculate (of_int (o_qty ord) * execution_price (slippage_bps m) (price m) (o_side ord))
                (o_side ord))"
proof -
  have a: "slippage_bps (MarketSimulator_init pm) = slippage_rate 10"
    by (simp add: MarketSimulator_init_def SLIPPAGE_BPS_def)
  have b: "execution_price (slippage_rate 10) reference_price ''buy'' = reference_price * (1001 / 1000)"
    "execution_price (slippage_rate 10) reference_price ''sell'' = reference_price * (999 / 1000)"
    by (simp_all add: execution_price_def slippage_rate_def)
  have c: "0 \<le> trade_value \<longrightarrow> 0 \<le> calculate trade_value side"
    by (simp add: calculate_nonneg)
  have d: "calculate trade_value ''buy'' = calculate trade_value ''sell'' + trade_value * STAMP_DUTY_PCT"
    "stamp_duty trade_value ''buy'' = trade_value * STAMP_DUTY_PCT"
    by (simp_all add: calculate_def stamp_duty_def Let_def)
  have e: "side \<noteq> ''buy'' \<longrightarrow> stamp_duty trade_value side = 0
         \<and> calculate trade_value side = calculate trade_value ''sell''"
    by (simp add: calculate_def stamp_duty_def Let_def)
  have f: "\<forall>m'. execute_order m ord = Inr m' \<and> trade_log m' \<noteq> trade_log m \<longrightarrow>
          t_price (last (trade_log m')) = execution_price (slippage_bps m) (price m) (o_side ord)
          \<and> t_cost (last (trade_log m')) =
              calculate (of_int (o_qty ord) * execution_price (slippage_bps m) (price m) (o_side ord))
                (o_side ord)"
    by (auto simp: execute_order_def Let_def put_strategy_def split: option.splits if_splits)
  show ?thesis using a b c d e f by blast
qed

theorem cost_model_applied_witness:
  "(0::real) \<le> 1000000 \<and> 0 \<le> calculate 1000000 ''buy''
   \<and> calculate 1000000 ''buy'' = 154571 / 100
   \<and> ''sell'' \<noteq> ''buy'' \<and> stamp_duty 1000000 ''sell'' = 0
   \<and> calculate 1000000 ''sell'' = 139571 / 100
   \<and> execute_order example_simulator \<lparr>o_id = ''Trend'', o_side = ''buy'', o_qty = 10\<rparr>
        = Inr (executed_prefix (submit_order example_simulator ''Trend'' ''buy'' 10) 1)
   \<and> trade_log (executed_prefix (submit_order example_simulator ''Trend'' ''buy'' 10) 1)
        \<noteq> trade_log example_simulator
   \<and> t_price (last (trade_log (executed_prefix (submit_order example_simulator ''Trend'' ''buy'' 10) 1)))
        = 100 * (1001 / 1000)"
proof -
  let ?ord = "\<lparr>o_id = ''Trend'', o_side = ''buy'', o_qty = 10\<rparr>"
  let ?m' = "executed_prefix (submit_order example_simulator ''Trend'' ''buy'' 10) 1"
  have lk: "map_of (strategies (firm example_simulator)) ''Trend'' =
     Some (set_capital (AtlasStrategy_init AtlasTrendFollowing ''Trend''
             (TrendFollowing 20 50 14 55 (5 / 100) (2 / 100))) 500000)"
    by (simp add: example_simulator_def MarketSimulator_init_def PortfolioManager_init_def
        example_configs_def STRATEGY_REGISTRY_def rebalance_capital_def dict_values_map_def)
  have sl: "slippage_bps example_simulator = 1 / 1000" "price example_simulator = 100"
    "order_queue example_simulator = []" "trade_log example_simulator = []"
    by (simp_all add: example_simulator_def MarketSimulator_init_def slippage_rate_def SLIPPAGE_BPS_def)
  have ex: "\<exists>m'. execute_order example_simulator ?ord = Inr m' \<and> trade_log m' \<noteq> []"
    by (simp add: execute_order_def lk sl Let_def execution_price_def calculate_rate
        set_capital_def AtlasStrategy_init_def)
  then obtain m' where m': "execute_order example_simulator ?ord = Inr m'" "trade_log m' \<noteq> []"
    by blast
  have q: "(example_simulator\<lparr>order_queue := []\<rparr>) = example_simulator"
    using sl(3) by (cases example_simulator) simp
  have pre: "?m' = m'"
    by (simp add: executed_prefix_def submit_order_def sl q m')
  have a: "execute_order example_simulator ?ord = Inr ?m'" using m' pre by simp
  have b: "trade_log ?m' \<noteq> trade_log example_simulator" using m' pre sl by simp
  have c: "t_price (last (trade_log ?m')) = 100 * (1001 / 1000)"
    using cost_model_applied[of _ _ _ _ example_simulator ?ord] a b sl
    by (simp add: execution_price_def)
  show ?thesis
    using cost_model_applied[of _ _ 1000000 "''buy''"] cost_model_applied[of _ _ 1000000 "''sell''"]
      a b c
    by (simp add: calculate_rate)
qed

section \<open>Capital allocation\<close>

lemma set_capital_idem: "set_capital (set_capital s c) c = set_capital s c"
  by (simp add: set_capital_def)

lemma dict_values_map_length: "length (dict_values_map f d) = length d"
  by (simp add: dict_values_map_def)

lemma dict_values_map_comp: "dict_values_map f (dict_values_map g d) = dict_values_map (\<lambda>v. f (g v)) d"
  by (induction d) (auto simp: dict_values_map_def)

lemma dict_values_map_nil: "dict_values_map f d = [] \<longleftrightarrow> d = []"
  by (simp add: dict_values_map_def)

lemma rebalance_capital_idem: "rebalance_capital (rebalance_capital pm) = rebalance_capital pm"
proof (cases "strategies pm = []")
  case True
  then show ?thesis by (simp add: rebalance_capital_def)
next
  case False
  then show ?thesis
    by (simp add: rebalance_capital_def Let_def dict_values_map_length dict_values_map_comp
        dict_values_map_nil set_capital_idem)
qed

lemma rebalance_capital_cash:
  "(k, s) \<in> set (strategies (rebalance_capital pm)) \<Longrightarrow>
     cash s = initial_capital pm / of_nat (length (strategies pm)) \<and> shares s = 0"
  by (auto simp: rebalance_capital_def Let_def dict_values_map_def set_capital_def split: if_splits)

lemma rebalance_capital_frame:
  "length (strategies (rebalance_capital pm)) = length (strategies pm)
   \<and> initial_capital (rebalance_capital pm) = initial_capital pm
   \<and> map fst (strategies (rebalance_capital pm)) = map fst (strategies pm)"
  by (auto simp: rebalance_capital_def Let_def dict_values_map_def)

text \<open>
  C9.  After construction every strategy of the allocator holds the total capital divided
  by the number of strategies as cash, and no shares.  Rebalancing again changes nothing:
  the allocator after construction is a fixed point of \<^verbatim>\<open>_rebalance_capital\<close>, and from any
  state two consecutive rebalances give the state that one gives.
\<close>

theorem equal_split_idempotent:
  "(\<forall>(name, s) \<in> set (strategies (PortfolioManager_init total_capital cfgs)).
       cash s = total_capital / of_nat (length (strategies (PortfolioManager_init total_capital cfgs)))
       \<and> shares s = 0)
   \<and> rebalance_capital (PortfolioManager_init total_capital cfgs) = PortfolioManager_init total_capital cfgs
   \<and> rebalance_capital (rebalance_capital pm) = rebalance_capital pm"
proof -
  let ?pm0 = "\<lparr>initial_capital = total_capital,
        strategies = concat (map (\<lambda>(name, c).
            case cfgs name of
              None \<Rightarrow> []
            | Some cfg \<Rightarrow> [(name, AtlasStrategy_init c name cfg)]) STRATEGY_REGISTRY)\<rparr>"
  have init: "PortfolioManager_init total_capital cfgs = rebalance_capital ?pm0"
    by (simp add: PortfolioManager_init_def)
  have a: "\<forall>(name, s) \<in> set (strategies (PortfolioManager_init total_capital cfgs)).
       cash s = total_capital / of_nat (length (strategies (PortfolioManager_init total_capital cfgs)))
       \<and> shares s = 0"
    unfolding init using rebalance_capital_cash[of _ _ ?pm0] rebalance_capital_frame[of ?pm0]
    by auto
  have b: "rebalance_capital (PortfolioManager_init total_capital cfgs) = PortfolioManager_init total_capital cfgs"
    unfolding init by (rule rebalance_capital_idem)
  show ?thesis using a b rebalance_capital_idem by blast
qed

theorem equal_split_idempotent_witness:
  "strategies (PortfolioManager_init 1000000 example_configs) =
     [(''Trend'', set_capital (AtlasStrategy_init AtlasTrendFollowing ''Trend''
             (TrendFollowing 20 50 14 55 (5 / 100) (2 / 100))) 500000),
      (''MeanReversion'', set_capital (AtlasStrategy_init AtlasMeanReversion ''MeanReversion''
             (MeanReversion 20 2 14 40 (3 / 100) (15 / 1000))) 500000)]
   \<and> cash (set_capital (AtlasStrategy_init AtlasTrendFollowing ''Trend''
             (TrendFollowing 20 50 14 55 (5 / 100) (2 / 100))) 500000)
        = 1000000 / of_nat (length (strategies (PortfolioManager_init 1000000 example_configs)))
   \<and> shares (set_capital (AtlasStrategy_init AtlasTrendFollowing ''Trend''
             (TrendFollowing 20 50 14 55 (5 / 100) (2 / 100))) 500000) = 0
   \<and> cash (set_capital (AtlasStrategy_init AtlasMeanReversion ''MeanReversion''
             (MeanReversion 20 2 14 40 (3 / 100) (15 / 1000))) 500000)
        = 1000000 / of_nat (length (strategies (PortfolioManager_init 1000000 example_configs)))
   \<and> shares (set_capital (AtlasStrategy_init AtlasMeanReversion ''MeanReversion''
             (MeanReversion 20 2 14 40 (3 / 100) (15 / 1000))) 500000) = 0
   \<and> rebalance_capital (PortfolioManager_init 1000000 example_configs)
        = PortfolioManager_init 1000000 example_configs"
proof -
  let ?t = "set_capital (AtlasStrategy_init AtlasTrendFollowing ''Trend''
             (TrendFollowing 20 50 14 55 (5 / 100) (2 / 100))) 500000"
  let ?r = "set_capital (AtlasStrategy_init AtlasMeanReversion ''MeanReversion''
             (MeanReversion 20 2 14 40 (3 / 100) (15 / 1000))) 500000"
  have s: "strategies (PortfolioManager_init 1000000 example_configs) =
     [(''Trend'', ?t), (''MeanReversion'', ?r)]"
    by (simp add: PortfolioManager_init_def example_configs_def STRATEGY_REGISTRY_def
        rebalance_capital_def dict_values_map_def)
  have m: "(''Trend'', ?t) \<in> set (strategies (PortfolioManager_init 1000000 example_configs))"
    "(''MeanReversion'', ?r) \<in> set (strategies (PortfolioManager_init 1000000 example_configs))"
    unfolding s by simp_all
  note inst = equal_split_idempotent[of 1000000 example_configs]
  have t: "cash ?t = 1000000 / of_nat (length (strategies (PortfolioManager_init 1000000 example_configs)))
           \<and> shares ?t = 0"
    using inst m(1) by blast
  have r: "cash ?r = 1000000 / of_nat (length (strategies (PortfolioManager_init 1000000 example_configs)))
           \<and> shares ?r = 0"
    using inst m(2) by blast
  show ?thesis
    using s t r inst by blast
qed

section \<open>Sharpe ratio\<close>





section \<open>Round-trip P\&L is FIFO matching\<close>

lemma epsilon_int:
  "real_of_int x \<le> EPSILON \<longleftrightarrow> x \<le> 0"
  "real_of_int x < EPSILON \<longleftrightarrow> x \<le> 0"
proof -
  have "x \<le> 0 \<or> 1 \<le> x" by arith
  then show "real_of_int x \<le> EPSILON \<longleftrightarrow> x \<le> 0"
  proof
    assume "x \<le> 0"
    then have "real_of_int x \<le> 0" by simp
    then show ?thesis using \<open>x \<le> 0\<close> by (simp add: EPSILON_def)
  next
    assume "1 \<le> x"
    then have "1 \<le> real_of_int x" by simp
    then show ?thesis using \<open>1 \<le> x\<close> by (simp add: EPSILON_def)
  qed
  have "x \<le> 0 \<or> 1 \<le> x" by arith
  then show "real_of_int x < EPSILON \<longleftrightarrow> x \<le> 0"
  proof
    assume "x \<le> 0"
    then have "real_of_int x \<le> 0" by simp
    then show ?thesis using \<open>x \<le> 0\<close> by (simp add: EPSILON_def)
  next
    assume "1 \<le> x"
    then have "1 \<le> real_of_int x" by simp
    then show ?thesis using \<open>1 \<le> x\<close> by (simp add: EPSILON_def)
  qed
qed

lemma epsilon_int_diff:
  "real_of_int a - real_of_int b \<le> EPSILON \<longleftrightarrow> a \<le> b"
  "real_of_int a - real_of_int b < EPSILON \<longleftrightarrow> a \<le> b"
  using epsilon_int[of "a - b"] by simp_all

lemma match_loop_stop:
  "\<not> (0 < sell_qty \<and> dq \<noteq> []) \<Longrightarrow> match_loop store dq sell_qty sell_price rt = (store, dq, sell_qty, rt)"
  by (subst match_loop.simps) auto

lemma match_loop_pop:
  assumes "0 < sell_qty" and "t_qty (store ! b) - min sell_qty (t_qty (store ! b)) \<le> 0"
  shows "match_loop store (b # rest) sell_qty sell_price rt =
     match_loop (store[b := (store ! b)\<lparr>t_qty := t_qty (store ! b) - min sell_qty (t_qty (store ! b))\<rparr>])
       rest (sell_qty - min sell_qty (t_qty (store ! b))) sell_price
       (rt + (sell_price - t_price (store ! b)) * of_int (min sell_qty (t_qty (store ! b))))"
  using assms by (subst match_loop.simps) (simp add: Let_def epsilon_int)

lemma match_loop_keep:
  assumes "0 < sell_qty" and "\<not> t_qty (store ! b) - min sell_qty (t_qty (store ! b)) \<le> 0"
  shows "match_loop store (b # rest) sell_qty sell_price rt =
     (store[b := (store ! b)\<lparr>t_qty := t_qty (store ! b) - sell_qty\<rparr>], b # rest, 0,
      rt + (sell_price - t_price (store ! b)) * of_int sell_qty)"
proof -
  have m: "min sell_qty (t_qty (store ! b)) = sell_qty" using assms(2) by (simp add: min_def split: if_splits)
  show ?thesis
    using assms
    by (subst match_loop.simps) (simp add: Let_def epsilon_int m match_loop_stop)
qed


lemma lots_of_update_other:
  "b \<notin> set dq \<Longrightarrow> lots_of (store[b := x]) dq = lots_of store dq"
  by (induction dq) (auto simp: lots_of_def nth_list_update)

lemma lots_of_Cons:
  "lots_of store (b # dq) = (t_qty (store ! b), t_price (store ! b)) # lots_of store dq"
  by (simp add: lots_of_def)

lemma match_loop_refines:
  assumes "distinct dq" and "\<forall>b\<in>set dq. b < length store"
  shows "\<exists>store' dq' s' rt'. match_loop store dq s p rt = (store', dq', s', rt')
       \<and> lots_of store' dq' = fst (fifo_consume (lots_of store dq) s p)
       \<and> rt' = rt + snd (fifo_consume (lots_of store dq) s p)
       \<and> length store' = length store
       \<and> set dq' \<subseteq> set dq \<and> distinct dq'
       \<and> (\<forall>j. j \<notin> set dq \<longrightarrow> store' ! j = store ! j)
       \<and> (\<forall>j. t_id (store' ! j) = t_id (store ! j) \<and> t_side (store' ! j) = t_side (store ! j)
              \<and> t_price (store' ! j) = t_price (store ! j))"
  using assms
proof (induction dq arbitrary: store s rt)
  case Nil
  show ?case by (simp add: match_loop_stop lots_of_def)
next
  case (Cons b rest)
  have b: "b < length store" "b \<notin> set rest" "distinct rest" "\<forall>x\<in>set rest. x < length store"
    using Cons.prems by auto
  let ?q = "t_qty (store ! b)" and ?bp = "t_price (store ! b)"
  let ?m = "min s ?q"
  show ?case
  proof (cases "0 < s")
    case False
    then show ?thesis using Cons.prems(1) by (simp add: match_loop_stop lots_of_Cons)
  next
    case pos: True
    show ?thesis
    proof (cases "?q - ?m \<le> 0")
      case keep: False
      have m: "?m = s" using keep by (simp add: min_def split: if_splits)
      let ?store' = "store[b := (store ! b)\<lparr>t_qty := ?q - s\<rparr>]"
      have ml: "match_loop store (b # rest) s p rt = (?store', b # rest, 0, rt + (p - ?bp) * of_int s)"
        by (rule match_loop_keep[OF pos keep])
      have fc: "fifo_consume (lots_of store (b # rest)) s p
                  = ((?q - s, ?bp) # lots_of store rest, (p - ?bp) * of_int s)"
        using pos keep m by (simp add: lots_of_Cons Let_def epsilon_int_diff)
      have l: "lots_of ?store' (b # rest) = (?q - s, ?bp) # lots_of store rest"
        using b by (simp add: lots_of_Cons lots_of_update_other)
      have fr: "\<forall>j. j \<notin> set (b # rest) \<longrightarrow> ?store' ! j = store ! j" by simp
      have ids: "\<forall>j. t_id (?store' ! j) = t_id (store ! j) \<and> t_side (?store' ! j) = t_side (store ! j)
              \<and> t_price (?store' ! j) = t_price (store ! j)"
        using b by (simp add: nth_list_update)
      show ?thesis
        unfolding ml fc using l fr ids Cons.prems(1) by simp
    next
      case pop: True
      let ?store' = "store[b := (store ! b)\<lparr>t_qty := ?q - ?m\<rparr>]"
      let ?rt' = "rt + (p - ?bp) * of_int ?m"
      have ml: "match_loop store (b # rest) s p rt = match_loop ?store' rest (s - ?m) p ?rt'"
        by (rule match_loop_pop[OF pos pop])
      have pre: "\<forall>x\<in>set rest. x < length ?store'" using b by simp
      obtain store'' dq'' s'' rt'' where ih:
        "match_loop ?store' rest (s - ?m) p ?rt' = (store'', dq'', s'', rt'')"
        "lots_of store'' dq'' = fst (fifo_consume (lots_of ?store' rest) (s - ?m) p)"
        "rt'' = ?rt' + snd (fifo_consume (lots_of ?store' rest) (s - ?m) p)"
        "length store'' = length ?store'"
        "set dq'' \<subseteq> set rest" "distinct dq''"
        "\<forall>j. j \<notin> set rest \<longrightarrow> store'' ! j = ?store' ! j"
        "\<forall>j. t_id (store'' ! j) = t_id (?store' ! j) \<and> t_side (store'' ! j) = t_side (?store' ! j)
              \<and> t_price (store'' ! j) = t_price (?store' ! j)"
        using Cons.IH[OF b(3) pre, of "s - ?m" ?rt'] by blast
      have lr: "lots_of ?store' rest = lots_of store rest"
        using b by (simp add: lots_of_update_other)
      have fc: "fifo_consume (lots_of store (b # rest)) s p
                  = (fst (fifo_consume (lots_of store rest) (s - ?m) p),
                     (p - ?bp) * of_int ?m + snd (fifo_consume (lots_of store rest) (s - ?m) p))"
        using pos pop by (simp add: lots_of_Cons Let_def epsilon_int_diff split: prod.splits)
      have ids: "\<forall>j. t_id (?store' ! j) = t_id (store ! j) \<and> t_side (?store' ! j) = t_side (store ! j)
              \<and> t_price (?store' ! j) = t_price (store ! j)"
        using b by (simp add: nth_list_update)
      have fr: "\<forall>j. j \<notin> set (b # rest) \<longrightarrow> store'' ! j = store ! j"
        using ih(7) by simp
      show ?thesis
        unfolding ml ih(1) fc using ih(2-6,8) lr ids fr by auto
    qed
  qed
qed


lemma lots_of_append: "lots_of store (dq @ [i]) = lots_of store dq @ [(t_qty (store ! i), t_price (store ! i))]"
  by (simp add: lots_of_def)

lemma lots_of_cong:
  "(\<And>b. b \<in> set dq \<Longrightarrow> store' ! b = store ! b) \<Longrightarrow> lots_of store' dq = lots_of store dq"
  by (simp add: lots_of_def)

lemma round_trip_step_refines:
  assumes inv: "rt_inv raw i s" and i: "i < length raw"
  shows "rt_inv raw (Suc i) (round_trip_step s i)
       \<and> pnl_list (round_trip_step s i)
            @ filter (\<lambda>x. x \<noteq> 0) (fifo_realized (book_of (round_trip_step s i)) rest)
          = pnl_list s @ filter (\<lambda>x. x \<noteq> 0) (fifo_realized (book_of s) (raw ! i # rest))
       \<and> fifo_book (book_of (round_trip_step s i)) rest = fifo_book (book_of s) (raw ! i # rest)"
proof -
  let ?tr = "raw ! i" and ?k = "t_id (raw ! i)"
  have len: "length (rt_trades s) = length raw"
    and dist: "\<And>k. distinct (open_buys s k)"
    and refs: "\<And>k b. b \<in> set (open_buys s k) \<Longrightarrow> b < i \<and> b < length raw \<and> t_id (rt_trades s ! b) = k"
    and ids: "\<And>j. j < length raw \<Longrightarrow> t_id (rt_trades s ! j) = t_id (raw ! j)
            \<and> t_side (rt_trades s ! j) = t_side (raw ! j) \<and> t_price (rt_trades s ! j) = t_price (raw ! j)"
    and fresh: "\<And>j. j < length raw \<Longrightarrow> i \<le> j \<Longrightarrow> rt_trades s ! j = raw ! j"
    using inv unfolding rt_inv_def by blast+
  have tr: "rt_trades s ! i = ?tr" using fresh[OF i] by simp
  consider (buy) "t_side ?tr = ''buy''"
    | (skip) "t_side ?tr \<noteq> ''buy''" "t_side ?tr = ''sell''" "open_buys s ?k = []"
    | (sell) "t_side ?tr \<noteq> ''buy''" "t_side ?tr = ''sell''" "open_buys s ?k \<noteq> []"
    | (other) "t_side ?tr \<noteq> ''buy''" "t_side ?tr \<noteq> ''sell''"
    by blast
  then show ?thesis
  proof cases
    case buy
    let ?s' = "s\<lparr>open_buys := (open_buys s)(?k := open_buys s ?k @ [i])\<rparr>"
    have st: "round_trip_step s i = ?s'"
      using buy tr by (simp add: round_trip_step_def Let_def)
    have bk: "book_of ?s' = (book_of s)(?k := book_of s ?k @ [(t_qty ?tr, t_price ?tr)])"
      by (rule ext) (simp add: book_of_def lots_of_append tr)
    have inv': "rt_inv raw (Suc i) ?s'"
      unfolding rt_inv_def
      using len dist refs ids fresh i tr by (auto simp: less_Suc_eq)
    show ?thesis unfolding st using inv' bk buy by simp
  next
    case skip
    have st: "round_trip_step s i = s"
      using skip tr by (simp add: round_trip_step_def Let_def)
    have bk: "book_of s ?k = []" using skip by (simp add: book_of_def lots_of_def)
    have "(book_of s)(?k := []) = book_of s" using bk by (rule_tac ext) simp
    then have fr: "fifo_realized (book_of s) (?tr # rest) = 0 # fifo_realized (book_of s) rest"
      "fifo_book (book_of s) (?tr # rest) = fifo_book (book_of s) rest"
      using skip bk by simp_all
    have inv': "rt_inv raw (Suc i) s"
      unfolding rt_inv_def
      using len dist refs ids fresh by (auto simp: less_Suc_eq)
    show ?thesis unfolding st fr using inv' by simp
  next
    case other
    have st: "round_trip_step s i = s"
      using other tr by (simp add: round_trip_step_def Let_def)
    have inv': "rt_inv raw (Suc i) s"
      unfolding rt_inv_def
      using len dist refs ids fresh by (auto simp: less_Suc_eq)
    show ?thesis unfolding st using inv' other by simp
  next
    case sell
    let ?dq = "open_buys s ?k" and ?store = "rt_trades s"
    have pre: "distinct ?dq" "\<forall>b\<in>set ?dq. b < length ?store"
      using dist refs len by auto
    obtain store' dq' s' rt' where ml:
      "match_loop ?store ?dq (t_qty ?tr) (t_price ?tr) 0 = (store', dq', s', rt')"
      "lots_of store' dq' = fst (fifo_consume (lots_of ?store ?dq) (t_qty ?tr) (t_price ?tr))"
      "rt' = 0 + snd (fifo_consume (lots_of ?store ?dq) (t_qty ?tr) (t_price ?tr))"
      "length store' = length ?store"
      "set dq' \<subseteq> set ?dq" "distinct dq'"
      "\<forall>j. j \<notin> set ?dq \<longrightarrow> store' ! j = ?store ! j"
      "\<forall>j. t_id (store' ! j) = t_id (?store ! j) \<and> t_side (store' ! j) = t_side (?store ! j)
              \<and> t_price (store' ! j) = t_price (?store ! j)"
      using match_loop_refines[OF pre, of "t_qty ?tr" "t_price ?tr" 0] by blast
    let ?s' = "s\<lparr>rt_trades := store', open_buys := (open_buys s)(?k := dq'),
                  pnl_list := (if rt' \<noteq> 0 then pnl_list s @ [rt'] else pnl_list s)\<rparr>"
    have st: "round_trip_step s i = ?s'"
      using sell tr ml(1) by (simp add: round_trip_step_def Let_def)
    have other_q: "lots_of store' (open_buys s k) = lots_of ?store (open_buys s k)" if "k \<noteq> ?k" for k
    proof (rule lots_of_cong)
      fix b assume b: "b \<in> set (open_buys s k)"
      have "b \<notin> set ?dq" using refs[OF b] refs[of b ?k] that by auto
      then show "store' ! b = ?store ! b" using ml(7) by simp
    qed
    have bk: "book_of ?s' = (book_of s)(?k := fst (fifo_consume (book_of s ?k) (t_qty ?tr) (t_price ?tr)))"
      by (rule ext) (simp add: book_of_def ml(2) other_q)
    have fr: "fifo_realized (book_of s) (?tr # rest) = rt' # fifo_realized (book_of ?s') rest"
      "fifo_book (book_of s) (?tr # rest) = fifo_book (book_of ?s') rest"
      using sell unfolding bk by (simp_all add: book_of_def ml(3) split: prod.splits)
    have inv': "rt_inv raw (Suc i) ?s'"
      unfolding rt_inv_def
    proof (intro conjI allI ballI impI)
      show "length (rt_trades ?s') = length raw" using ml(4) len by simp
    next
      fix k show "distinct (open_buys ?s' k)" using dist ml(6) by simp
    next
      fix k b assume b: "b \<in> set (open_buys ?s' k)"
      then have "b \<in> set (open_buys s k)" using ml(5) by (auto split: if_splits)
      then have "b < i \<and> b < length raw \<and> t_id (rt_trades s ! b) = k" by (rule refs)
      then show "b < Suc i" "b < length raw" "t_id (rt_trades ?s' ! b) = k" using ml(8) by simp_all
    next
      fix j assume "j < length raw"
      then show "t_id (rt_trades ?s' ! j) = t_id (raw ! j)" "t_side (rt_trades ?s' ! j) = t_side (raw ! j)"
        "t_price (rt_trades ?s' ! j) = t_price (raw ! j)"
        using ml(8) ids by simp_all
    next
      fix j assume j: "j < length raw" "Suc i \<le> j"
      have "j \<notin> set ?dq" using refs[of j ?k] j by auto
      then show "rt_trades ?s' ! j = raw ! j" using ml(7) fresh[of j] j by simp
    qed
    show ?thesis unfolding st fr using inv' by simp
  qed
qed

lemma round_trip_fold_refines:
  assumes "rt_inv raw i s" and "i \<le> length raw"
  shows "pnl_list (foldl round_trip_step s [i..<length raw])
           = pnl_list s @ filter (\<lambda>x. x \<noteq> 0) (fifo_realized (book_of s) (drop i raw))
       \<and> book_of (foldl round_trip_step s [i..<length raw]) = fifo_book (book_of s) (drop i raw)"
  using assms
proof (induction "length raw - i" arbitrary: i s)
  case 0
  then show ?case by simp
next
  case (Suc d)
  then have i: "i < length raw" by simp
  have step: "rt_inv raw (Suc i) (round_trip_step s i)"
    "pnl_list (round_trip_step s i)
       @ filter (\<lambda>x. x \<noteq> 0) (fifo_realized (book_of (round_trip_step s i)) (drop (Suc i) raw))
     = pnl_list s @ filter (\<lambda>x. x \<noteq> 0) (fifo_realized (book_of s) (raw ! i # drop (Suc i) raw))"
    "fifo_book (book_of (round_trip_step s i)) (drop (Suc i) raw)
     = fifo_book (book_of s) (raw ! i # drop (Suc i) raw)"
    using round_trip_step_refines[OF Suc.prems(1) i, of "drop (Suc i) raw"] by simp_all
  have d: "d = length raw - Suc i" using Suc.hyps(2) by simp
  have "pnl_list (foldl round_trip_step (round_trip_step s i) [Suc i..<length raw])
          = pnl_list (round_trip_step s i)
            @ filter (\<lambda>x. x \<noteq> 0) (fifo_realized (book_of (round_trip_step s i)) (drop (Suc i) raw))
        \<and> book_of (foldl round_trip_step (round_trip_step s i) [Suc i..<length raw])
          = fifo_book (book_of (round_trip_step s i)) (drop (Suc i) raw)"
    using Suc.hyps(1)[OF d step(1)] i by simp
  then show ?case
    using step(2,3) i by (simp add: upt_conv_Cons Cons_nth_drop_Suc)
qed

lemma round_trip_refines_fifo:
  "calculate_round_trip_pnl raw = filter (\<lambda>x. x \<noteq> 0) (fifo_realized (\<lambda>k. []) raw)"
  "open_buys_after raw k = fifo_book (\<lambda>k. []) raw k"
proof -
  let ?s0 = "\<lparr>rt_trades = raw, open_buys = (\<lambda>k. []), pnl_list = []\<rparr>"
  have inv: "rt_inv raw 0 ?s0" by (simp add: rt_inv_def)
  have bk: "book_of ?s0 = (\<lambda>k. [])" by (rule ext) (simp add: book_of_def lots_of_def)
  note r = round_trip_fold_refines[OF inv, of]
  show "calculate_round_trip_pnl raw = filter (\<lambda>x. x \<noteq> 0) (fifo_realized (\<lambda>k. []) raw)"
    using r bk by (simp add: calculate_round_trip_pnl_def round_trip_run_def)
  have "book_of (round_trip_run raw) = fifo_book (\<lambda>k. []) raw"
    using r bk by (simp add: round_trip_run_def)
  then have "book_of (round_trip_run raw) k = fifo_book (\<lambda>k. []) raw k"
    by simp
  then show "open_buys_after raw k = fifo_book (\<lambda>k. []) raw k"
    by (simp add: open_buys_after_def book_of_def)
qed

text \<open>
  C3.  \<^verbatim>\<open>calculate_round_trip_pnl\<close> is FIFO matching per strategy id: the list it returns is
  the list of the P\&L that the specification's matching realizes for each sell (oldest
  open buy first, \<open>(sell price - buy price) * matched quantity\<close> per match, a lot discarded
  once what remains is below the epsilon), without the entries that are zero; and the buys
  it leaves open are the lots the specification leaves open.  For the log buy 10 at 100,
  buy 5 at 110, sell 12 at 120 of one strategy the result is the single P\&L 220 and the
  single open buy is 3 at 110.
\<close>

theorem round_trip_pnl_is_fifo:
  "calculate_round_trip_pnl raw = filter (\<lambda>x. x \<noteq> 0) (fifo_realized (\<lambda>k. []) raw)
   \<and> open_buys_after raw k = fifo_book (\<lambda>k. []) raw k
   \<and> calculate_round_trip_pnl fifo_example = [220]
   \<and> open_buys_after fifo_example ''Trend'' = [(3, 110)]"
proof -
  have a: "calculate_round_trip_pnl fifo_example = [220]"
    by code_simp
  have b: "open_buys_after fifo_example ''Trend'' = [(3, 110)]"
    by code_simp
  show ?thesis
    using a b round_trip_refines_fifo(1)[of raw] round_trip_refines_fifo(2)[of raw k] by simp
qed

theorem round_trip_pnl_is_fifo_witness:
  "calculate_round_trip_pnl round_trip_log = [200]
   \<and> filter (\<lambda>x. x \<noteq> 0) (fifo_realized (\<lambda>k. []) round_trip_log) = [200]
   \<and> open_buys_after round_trip_log ''Trend'' = []
   \<and> fifo_book (\<lambda>k. []) round_trip_log ''Trend'' = []"
proof -
  have a: "calculate_round_trip_pnl round_trip_log = [200]"
    by code_simp
  have b: "open_buys_after round_trip_log ''Trend'' = []"
    by code_simp
  show ?thesis
    using a b round_trip_pnl_is_fifo[of round_trip_log "''Trend''"] by simp
qed

section \<open>Entries of the P\&L list\<close>

text \<open>
  C10.  The list that \<^verbatim>\<open>calculate_round_trip_pnl\<close> returns never contains 0.  In the loop, a
  sell whose strategy id has no open buy leaves the whole state as it is (store, deques and
  P\&L list); a sell matched against open buys appends its P\&L exactly when it is not 0.
  The break-even log (buy 10 at 100, sell 10 at 100, and a sell of a strategy without buys)
  yields the empty list.
\<close>

theorem zero_pnl_and_unmatched_sell_skipped:
  "0 \<notin> set (calculate_round_trip_pnl raw)
   \<and> (t_side (rt_trades s ! i) = ''sell'' \<and> open_buys s (t_id (rt_trades s ! i)) = []
        \<longrightarrow> round_trip_step s i = s)
   \<and> (t_side (rt_trades s ! i) = ''sell'' \<and> open_buys s (t_id (rt_trades s ! i)) \<noteq> []
        \<longrightarrow> (\<exists>store' dq' sell_qty' rt_pnl.
              match_loop (rt_trades s) (open_buys s (t_id (rt_trades s ! i)))
                (t_qty (rt_trades s ! i)) (t_price (rt_trades s ! i)) 0 = (store', dq', sell_qty', rt_pnl)
              \<and> pnl_list (round_trip_step s i)
                  = (if rt_pnl \<noteq> 0 then pnl_list s @ [rt_pnl] else pnl_list s)))
   \<and> calculate_round_trip_pnl break_even_log = []"
proof -
  have a: "0 \<notin> set (calculate_round_trip_pnl raw)"
    by (simp add: round_trip_refines_fifo(1))
  have b: "t_side (rt_trades s ! i) = ''sell'' \<and> open_buys s (t_id (rt_trades s ! i)) = []
        \<longrightarrow> round_trip_step s i = s"
    by (simp add: round_trip_step_def Let_def)
  have c: "t_side (rt_trades s ! i) = ''sell'' \<and> open_buys s (t_id (rt_trades s ! i)) \<noteq> []
        \<longrightarrow> (\<exists>store' dq' sell_qty' rt_pnl.
              match_loop (rt_trades s) (open_buys s (t_id (rt_trades s ! i)))
                (t_qty (rt_trades s ! i)) (t_price (rt_trades s ! i)) 0 = (store', dq', sell_qty', rt_pnl)
              \<and> pnl_list (round_trip_step s i)
                  = (if rt_pnl \<noteq> 0 then pnl_list s @ [rt_pnl] else pnl_list s))"
  proof (intro impI)
    assume h: "t_side (rt_trades s ! i) = ''sell'' \<and> open_buys s (t_id (rt_trades s ! i)) \<noteq> []"
    obtain store' dq' sell_qty' rt_pnl where ml:
      "match_loop (rt_trades s) (open_buys s (t_id (rt_trades s ! i)))
                (t_qty (rt_trades s ! i)) (t_price (rt_trades s ! i)) 0 = (store', dq', sell_qty', rt_pnl)"
      by (metis prod_cases4)
    have "pnl_list (round_trip_step s i) = (if rt_pnl \<noteq> 0 then pnl_list s @ [rt_pnl] else pnl_list s)"
      using h ml by (simp add: round_trip_step_def Let_def)
    then show "\<exists>store' dq' sell_qty' rt_pnl.
              match_loop (rt_trades s) (open_buys s (t_id (rt_trades s ! i)))
                (t_qty (rt_trades s ! i)) (t_price (rt_trades s ! i)) 0 = (store', dq', sell_qty', rt_pnl)
              \<and> pnl_list (round_trip_step s i)
                  = (if rt_pnl \<noteq> 0 then pnl_list s @ [rt_pnl] else pnl_list s)"
      using ml by blast
  qed
  have d: "calculate_round_trip_pnl break_even_log = []"
    by code_simp
  show ?thesis using a b c d by blast
qed

theorem zero_pnl_and_unmatched_sell_skipped_witness:
  "t_side (rt_trades unmatched_sell_state ! 0) = ''sell''
   \<and> open_buys unmatched_sell_state (t_id (rt_trades unmatched_sell_state ! 0)) = []
   \<and> round_trip_step unmatched_sell_state 0 = unmatched_sell_state
   \<and> t_side (rt_trades matched_sell_state ! 1) = ''sell''
   \<and> open_buys matched_sell_state (t_id (rt_trades matched_sell_state ! 1)) \<noteq> []
   \<and> pnl_list (round_trip_step matched_sell_state 1) = [200]
   \<and> 0 \<notin> set (calculate_round_trip_pnl round_trip_log)"
proof -
  have u: "t_side (rt_trades unmatched_sell_state ! 0) = ''sell''"
    "open_buys unmatched_sell_state (t_id (rt_trades unmatched_sell_state ! 0)) = []"
    by (simp_all add: unmatched_sell_state_def)
  have m: "t_side (rt_trades matched_sell_state ! 1) = ''sell''"
    "open_buys matched_sell_state (t_id (rt_trades matched_sell_state ! 1)) \<noteq> []"
    by (simp_all add: matched_sell_state_def round_trip_log_def)
  have ml: "match_loop (rt_trades matched_sell_state)
              (open_buys matched_sell_state (t_id (rt_trades matched_sell_state ! 1)))
              (t_qty (rt_trades matched_sell_state ! 1)) (t_price (rt_trades matched_sell_state ! 1)) 0
            = ([\<lparr>t_id = ''Trend'', t_side = ''buy'', t_qty = 0, t_price = 100, t_cost = 0\<rparr>,
                \<lparr>t_id = ''Trend'', t_side = ''sell'', t_qty = 10, t_price = 120, t_cost = 0\<rparr>], [], 0, 200)"
    by (simp add: matched_sell_state_def round_trip_log_def match_loop.simps EPSILON_def)
  note inst1 = zero_pnl_and_unmatched_sell_skipped[of round_trip_log unmatched_sell_state 0]
  note inst2 = zero_pnl_and_unmatched_sell_skipped[of round_trip_log matched_sell_state 1]
  have p: "pnl_list (round_trip_step matched_sell_state 1) = [200]"
    using inst2 m ml by (simp add: matched_sell_state_def)
  show ?thesis
    using inst1 u m p by blast
qed

section \<open>The trade log under the analyzer\<close>

lemma execute_order_appends:
  "execute_order m ord = Inr m' \<Longrightarrow> \<exists>new. trade_log m' = trade_log m @ new"
  by (auto simp: execute_order_def Let_def put_strategy_def split: option.splits if_splits)

lemma process_orders_appends:
  "\<exists>new. trade_log (fst (process_orders m ords)) = trade_log m @ new"
proof (induction ords arbitrary: m)
  case Nil
  show ?case by simp
next
  case (Cons ord rest)
  show ?case
  proof (cases "execute_order m ord")
    case (Inl e)
    then show ?thesis by simp
  next
    case (Inr m')
    obtain n1 where n1: "trade_log m' = trade_log m @ n1"
      using execute_order_appends[OF Inr] by blast
    obtain n2 where n2: "trade_log (fst (process_orders m' rest)) = trade_log m' @ n2"
      using Cons.IH[of m'] by blast
    show ?thesis using Inr n1 n2 by simp
  qed
qed

lemma execute_orders_appends:
  "\<exists>new. trade_log (fst (execute_orders m)) = trade_log m @ new"
  using process_orders_appends[of "m\<lparr>order_queue := []\<rparr>" "order_queue m"]
  by (simp add: execute_orders_def)

text \<open>
  C7.  \<^verbatim>\<open>execute_orders\<close> only appends to the trade log (the three lemmas above).
  \<^verbatim>\<open>calculate_round_trip_pnl\<close> does not leave the log as recorded: it decrements the quantity
  of every matched buy in the dictionaries of the log itself.  On the log that the example
  simulator records for a buy of 10 and a sell of 10, the buy is recorded with quantity 10
  and has quantity 0 after the call; a second call on the same log then returns no P\&L at
  all, where the first returned \<open>-2\<close>.
\<close>

theorem analyzer_overwrites_recorded_fills:
  "simulated_log =
     [\<lparr>t_id = ''Trend'', t_side = ''buy'', t_qty = 10, t_price = 1001 / 10,
       t_cost = 154725571 / 100000000\<rparr>,
      \<lparr>t_id = ''Trend'', t_side = ''sell'', t_qty = 10, t_price = 999 / 10,
       t_cost = 139431429 / 100000000\<rparr>]
   \<and> raw_trades_after simulated_log =
     [\<lparr>t_id = ''Trend'', t_side = ''buy'', t_qty = 0, t_price = 1001 / 10,
       t_cost = 154725571 / 100000000\<rparr>,
      \<lparr>t_id = ''Trend'', t_side = ''sell'', t_qty = 10, t_price = 999 / 10,
       t_cost = 139431429 / 100000000\<rparr>]
   \<and> t_qty (simulated_log ! 0) = 10
   \<and> t_qty (raw_trades_after simulated_log ! 0) = 0
   \<and> calculate_round_trip_pnl simulated_log = [- 2]
   \<and> calculate_round_trip_pnl (raw_trades_after simulated_log) = []"
proof -
  have a: "simulated_log =
     [\<lparr>t_id = ''Trend'', t_side = ''buy'', t_qty = 10, t_price = 1001 / 10,
       t_cost = 154725571 / 100000000\<rparr>,
      \<lparr>t_id = ''Trend'', t_side = ''sell'', t_qty = 10, t_price = 999 / 10,
       t_cost = 139431429 / 100000000\<rparr>]"
    by code_simp
  have b: "raw_trades_after simulated_log =
     [\<lparr>t_id = ''Trend'', t_side = ''buy'', t_qty = 0, t_price = 1001 / 10,
       t_cost = 154725571 / 100000000\<rparr>,
      \<lparr>t_id = ''Trend'', t_side = ''sell'', t_qty = 10, t_price = 999 / 10,
       t_cost = 139431429 / 100000000\<rparr>]"
    unfolding a by code_simp
  have c: "calculate_round_trip_pnl simulated_log = [- 2]"
    unfolding a by code_simp
  have d: "calculate_round_trip_pnl (raw_trades_after simulated_log) = []"
    unfolding b by code_simp
  have e: "t_qty (simulated_log ! 0) = 10"
    by (simp add: a)
  have f: "t_qty (raw_trades_after simulated_log ! 0) = 0"
    by (simp add: b)
  show ?thesis
    by (intro conjI a b c d e f)
qed

section \<open>Risk manager\<close>

lemma legacy_step_facts:
  "is_drawdown_breached (snd (legacy_is_trade_allowed rm side qty p cv))
     = (is_drawdown_breached rm \<or> drawdown rm cv > DAILY_DRAWDOWN_LIMIT rm)"
  "alerts (snd (legacy_is_trade_allowed rm side qty p cv))
     = alerts rm @ (if \<not> is_drawdown_breached rm \<and> drawdown rm cv > DAILY_DRAWDOWN_LIMIT rm
                    then [''RISK BREACH''] else [])"
  "fst (legacy_is_trade_allowed rm side qty p cv)
     = (\<not> (is_drawdown_breached (snd (legacy_is_trade_allowed rm side qty p cv)) \<and> side = ''buy'')
        \<and> of_int qty * p \<le> MAX_ORDER_VALUE rm)"
  "DAILY_DRAWDOWN_LIMIT (snd (legacy_is_trade_allowed rm side qty p cv)) = DAILY_DRAWDOWN_LIMIT rm"
  "MAX_ORDER_VALUE (snd (legacy_is_trade_allowed rm side qty p cv)) = MAX_ORDER_VALUE rm"
  "peak_equity (snd (legacy_is_trade_allowed rm side qty p cv)) = peak_equity rm"
  by (auto simp: legacy_is_trade_allowed_def Let_def)

lemma legacy_session_snoc:
  "legacy_session rm v (evs @ [e]) = legacy_session_step (legacy_session rm v evs) e"
  by (simp add: legacy_session_def)

lemma legacy_session_alerts:
  "alerts (fst (legacy_session rm v evs))
     = alerts rm @ (if is_drawdown_breached (fst (legacy_session rm v evs)) then [''RISK BREACH''] else [])"
proof (induction evs rule: rev_induct)
  case Nil
  show ?case by (simp add: legacy_session_def assess_new_day_def)
next
  case (snoc e evs)
  obtain r c where s: "legacy_session rm v evs = (r, c)" by (cases "legacy_session rm v evs")
  show ?case
    using snoc s by (cases e) (auto simp: legacy_session_snoc legacy_step_facts)
qed

lemma legacy_steps_stay_breached:
  "is_drawdown_breached (fst st) \<Longrightarrow> is_drawdown_breached (fst (foldl legacy_session_step st evs))"
proof (induction evs arbitrary: st)
  case Nil
  then show ?case by simp
next
  case (Cons e evs)
  obtain r c where s: "st = (r, c)" by (cases st)
  have "is_drawdown_breached (fst (legacy_session_step st e))"
    using Cons.prems s by (cases e) (auto simp: legacy_step_facts)
  then show ?case using Cons.IH by simp
qed

lemma legacy_session_one_way:
  "is_drawdown_breached (fst (legacy_session rm v (take n evs)))
     \<Longrightarrow> is_drawdown_breached (fst (legacy_session rm v evs))"
proof -
  assume h: "is_drawdown_breached (fst (legacy_session rm v (take n evs)))"
  have "legacy_session rm v evs
          = foldl legacy_session_step (legacy_session rm v (take n evs)) (drop n evs)"
    unfolding legacy_session_def by (simp flip: foldl_append)
  then show ?thesis using legacy_steps_stay_breached[OF h] by simp
qed

text \<open>
  C4, as amended.  In the older copy of the engine, a call of \<^verbatim>\<open>is_trade_allowed\<close> leaves the
  risk manager breached exactly when it was breached before or the drawdown at that call
  exceeds the limit, and it sends the alert \<^verbatim>\<open>RISK BREACH\<close> exactly when it makes that
  transition; in a session started by \<^verbatim>\<open>assess_new_day\<close>, whatever equity is observed and
  whatever trades are checked, the alerts sent are one \<^verbatim>\<open>RISK BREACH\<close> if the session ends
  breached and none otherwise, and a session that is breached after some of its events is
  breached after all of them.  While breached, every buy is refused and a sell is allowed
  exactly when its value does not exceed the order limit.  In the current engine
  \<^verbatim>\<open>is_trade_allowed\<close> has no drawdown check: it allows an order exactly when its value does
  not exceed the order limit, sends \<^verbatim>\<open>RISK VIOLATION\<close> for every order above it, and changes
  nothing else of the risk manager.
\<close>

theorem risk_gate_as_implemented:
  "is_drawdown_breached (snd (legacy_is_trade_allowed rm side qty p cv))
     = (is_drawdown_breached rm \<or> drawdown rm cv > DAILY_DRAWDOWN_LIMIT rm)
   \<and> alerts (snd (legacy_is_trade_allowed rm side qty p cv))
     = alerts rm @ (if \<not> is_drawdown_breached rm \<and> drawdown rm cv > DAILY_DRAWDOWN_LIMIT rm
                    then [''RISK BREACH''] else [])
   \<and> alerts (fst (legacy_session rm v evs))
     = alerts rm @ (if is_drawdown_breached (fst (legacy_session rm v evs)) then [''RISK BREACH''] else [])
   \<and> (is_drawdown_breached (fst (legacy_session rm v (take n evs)))
        \<longrightarrow> is_drawdown_breached (fst (legacy_session rm v evs)))
   \<and> (is_drawdown_breached rm \<longrightarrow>
        fst (legacy_is_trade_allowed rm ''buy'' qty p cv) = False
        \<and> fst (legacy_is_trade_allowed rm ''sell'' qty p cv) = (of_int qty * p \<le> MAX_ORDER_VALUE rm))
   \<and> is_trade_allowed rm side qty p cv
       = (of_int qty * p \<le> MAX_ORDER_VALUE rm,
          rm\<lparr>alerts := alerts rm @ (if of_int qty * p > MAX_ORDER_VALUE rm then [''RISK VIOLATION''] else [])\<rparr>)"
proof -
  have cur: "is_trade_allowed rm side qty p cv
       = (of_int qty * p \<le> MAX_ORDER_VALUE rm,
          rm\<lparr>alerts := alerts rm @ (if of_int qty * p > MAX_ORDER_VALUE rm then [''RISK VIOLATION''] else [])\<rparr>)"
    by (simp add: is_trade_allowed_def Let_def)
  have br: "is_drawdown_breached rm \<longrightarrow>
        fst (legacy_is_trade_allowed rm ''buy'' qty p cv) = False
        \<and> fst (legacy_is_trade_allowed rm ''sell'' qty p cv) = (of_int qty * p \<le> MAX_ORDER_VALUE rm)"
    by (simp add: legacy_step_facts)
  show ?thesis
    using cur br legacy_step_facts(1,2)[of rm side qty p cv] legacy_session_alerts[of rm v evs]
      legacy_session_one_way[of rm v n evs]
    by blast
qed


theorem risk_gate_as_implemented_witness:
  "is_drawdown_breached (fst (legacy_session (RiskManager_init 200000 (5 / 100)) 1000000 (take 4 example_session)))
   \<and> is_drawdown_breached (fst (legacy_session (RiskManager_init 200000 (5 / 100)) 1000000 example_session))
   \<and> alerts (fst (legacy_session (RiskManager_init 200000 (5 / 100)) 1000000 example_session)) = [''RISK BREACH'']
   \<and> fst (legacy_is_trade_allowed
            (fst (legacy_session (RiskManager_init 200000 (5 / 100)) 1000000 example_session))
            ''buy'' 1 1 800000) = False
   \<and> fst (legacy_is_trade_allowed
            (fst (legacy_session (RiskManager_init 200000 (5 / 100)) 1000000 example_session))
            ''sell'' 10 100 800000) = True"
proof -
  let ?rm = "RiskManager_init 200000 (5 / 100)"
  let ?end = "fst (legacy_session ?rm 1000000 example_session)"
  have pre: "is_drawdown_breached (fst (legacy_session ?rm 1000000 (take 4 example_session)))"
    by (simp add: example_session_def legacy_session_def assess_new_day_def RiskManager_init_def
        legacy_is_trade_allowed_def drawdown_def Let_def)
  have cfg: "MAX_ORDER_VALUE ?end = 200000" "alerts ?rm = []"
    by (simp_all add: example_session_def legacy_session_def assess_new_day_def RiskManager_init_def
        legacy_step_facts)
  note inst = risk_gate_as_implemented[of ?rm _ _ _ _ 1000000 example_session 4]
  have br: "is_drawdown_breached ?end"
    using inst pre by blast
  have al: "alerts ?end = [''RISK BREACH'']"
    using inst br cfg(2) by simp
  note inst2 = risk_gate_as_implemented[of ?end _ 1 1 800000]
  note inst3 = risk_gate_as_implemented[of ?end _ 10 100 800000]
  have b: "fst (legacy_is_trade_allowed ?end ''buy'' 1 1 800000) = False"
    using inst2 br by blast
  have s: "fst (legacy_is_trade_allowed ?end ''sell'' 10 100 800000) = True"
    using inst3 br cfg(1) by simp
  show ?thesis
    by (intro conjI pre br al b s)
qed

text \<open>
  C4 as stated fails.  Current engine: with the peak at 1,000,000 and the equity at 500,000
  the drawdown exceeds the limit, yet a buy is allowed and the risk manager stays as it was,
  not breached and without an alert.  Older copy: observing the same equity does not make
  the risk manager breached; only a later trade check does.
\<close>

theorem drawdown_gate_counterexample:
  "drawdown example_risk_manager 500000 > DAILY_DRAWDOWN_LIMIT example_risk_manager
   \<and> is_trade_allowed example_risk_manager ''buy'' 1 100 500000 = (True, example_risk_manager)
   \<and> \<not> is_drawdown_breached example_risk_manager
   \<and> alerts example_risk_manager = []
   \<and> drawdown (fst (legacy_session (RiskManager_init 200000 (5 / 100)) 1000000 [EquityObserved 500000])) 500000
        > DAILY_DRAWDOWN_LIMIT (RiskManager_init 200000 (5 / 100))
   \<and> \<not> is_drawdown_breached
         (fst (legacy_session (RiskManager_init 200000 (5 / 100)) 1000000 [EquityObserved 500000]))"
  by (simp add: example_risk_manager_def assess_new_day_def RiskManager_init_def drawdown_def
      is_trade_allowed_def legacy_session_def Let_def)

section \<open>Warm-up and zero volatility\<close>

lemma calculate_atr_14: "\<exists>atr. calculate_atr history 14 = Inr atr"
  by (simp add: calculate_atr_def Let_def)

lemma trend_no_buy_without_atr:
  assumes "calculate_atr history 14 = Inr atr" and "atr \<le> 0"
  shows "trend_decide_action lib s history p \<noteq> Inr (BUY, q, s')"
  using assms
  by (auto simp: trend_decide_action_def Let_def clear_exit_prices_def
      split: strategy_config.splits sum.splits if_splits)

lemma trend_entry_without_atr:
  assumes "shares s = 0" and "calculate_atr history 14 = Inr atr" and "atr \<le> 0"
    and "trend_decide_action lib s history p = Inr r"
  shows "r = (HOLD, 0, s)"
  using assms
  by (auto simp: trend_decide_action_def Let_def
      split: strategy_config.splits sum.splits if_splits)

text \<open>
  C8.  Warm-up: when the history is shorter than the long window (trend) or the window
  (mean reversion) of the strategy's configuration, the backtest decision returns HOLD with
  quantity 0 and the strategy unchanged, and the live decision returns HOLD with the
  strategy unchanged (it carries no quantity); none of them raises.  Volatility: when the
  average true range of the backtest trend strategy is zero (also when fewer than 14 bars
  leave it undefined and \<^verbatim>\<open>_calculate_atr\<close> returns 0.0), the decision is never a buy, and
  for a strategy without shares a decision that returns is HOLD with quantity 0.  The live
  trend strategy computes no average true range.  All of this holds whatever values the
  \<^verbatim>\<open>mean()\<close> and \<^verbatim>\<open>std()\<close> of pandas return.
\<close>

theorem warm_up_and_zero_volatility_hold:
  "(config s = TrendFollowing sw lw rw thr tp sl \<and> int (length history) < lw
       \<longrightarrow> trend_decide_action lib s history p = Inr (HOLD, 0, s))
   \<and> (config s = MeanReversion w k rw othr tp sl \<and> int (length history) < w
       \<longrightarrow> mean_reversion_decide_action lib s history p = Inr (HOLD, 0, s))
   \<and> (live_config ls = TrendFollowing sw lw rw thr tp sl \<and> short_history tk lw
       \<longrightarrow> live_trend_decide_action lib rsi_fn ls symbol tk = Inr (HOLD, ls))
   \<and> (live_config ls = MeanReversion w k rw othr tp sl \<and> short_history tk w
       \<longrightarrow> live_mean_reversion_decide_action lib rsi_fn ls symbol tk = Inr (HOLD, ls))
   \<and> (calculate_atr history 14 = Inr atr \<and> atr \<le> 0
       \<longrightarrow> trend_decide_action lib s history p \<noteq> Inr (BUY, q, s')
         \<and> (shares s = 0 \<and> trend_decide_action lib s history p = Inr r \<longrightarrow> r = (HOLD, 0, s)))"
proof -
  have a: "config s = TrendFollowing sw lw rw thr tp sl \<and> int (length history) < lw
       \<longrightarrow> trend_decide_action lib s history p = Inr (HOLD, 0, s)"
    by (simp add: trend_decide_action_def)
  have b: "config s = MeanReversion w k rw othr tp sl \<and> int (length history) < w
       \<longrightarrow> mean_reversion_decide_action lib s history p = Inr (HOLD, 0, s)"
    by (simp add: mean_reversion_decide_action_def)
  have c: "live_config ls = TrendFollowing sw lw rw thr tp sl \<and> short_history tk lw
       \<longrightarrow> live_trend_decide_action lib rsi_fn ls symbol tk = Inr (HOLD, ls)"
    by (simp add: live_trend_decide_action_def short_history_def split: option.splits)
  have d: "live_config ls = MeanReversion w k rw othr tp sl \<and> short_history tk w
       \<longrightarrow> live_mean_reversion_decide_action lib rsi_fn ls symbol tk = Inr (HOLD, ls)"
    by (simp add: live_mean_reversion_decide_action_def short_history_def split: option.splits)
  have e: "calculate_atr history 14 = Inr atr \<and> atr \<le> 0
       \<longrightarrow> trend_decide_action lib s history p \<noteq> Inr (BUY, q, s')
         \<and> (shares s = 0 \<and> trend_decide_action lib s history p = Inr r \<longrightarrow> r = (HOLD, 0, s))"
    using trend_no_buy_without_atr trend_entry_without_atr by blast
  show ?thesis using a b c d e by blast
qed


theorem warm_up_and_zero_volatility_hold_witness:
  "config example_trend_strategy = TrendFollowing 20 50 14 55 (5 / 100) (2 / 100)
   \<and> int (length rising_history) < 50
   \<and> trend_decide_action exact_pandas example_trend_strategy rising_history 6 = Inr (HOLD, 0, example_trend_strategy)
   \<and> config example_mr_strategy = MeanReversion 20 2 14 40 (3 / 100) (15 / 1000)
   \<and> int (length rising_history) < 20
   \<and> mean_reversion_decide_action exact_pandas example_mr_strategy rising_history 6 = Inr (HOLD, 0, example_mr_strategy)
   \<and> live_config example_live_strategy = TrendFollowing 20 50 14 55 (5 / 100) (2 / 100)
   \<and> short_history short_tick 50
   \<and> live_trend_decide_action exact_pandas no_rsi example_live_strategy ''INFY.NS'' short_tick
        = Inr (HOLD, example_live_strategy)
   \<and> live_config example_live_mr_strategy = MeanReversion 20 2 14 40 (3 / 100) (15 / 1000)
   \<and> short_history short_tick 20
   \<and> live_mean_reversion_decide_action exact_pandas no_rsi example_live_mr_strategy ''INFY.NS'' short_tick
        = Inr (HOLD, example_live_mr_strategy)
   \<and> rolling_last 2 (Series_mean exact_pandas) (map Close rising_history) = Inr (Some 4)
   \<and> rolling_last 3 (Series_mean exact_pandas) (map Close rising_history) = Inr (Some 3)
   \<and> approx_rsi 2 (map Close rising_history) = Inr (Some 650000000000)
   \<and> shares small_trend_strategy = 0
   \<and> calculate_atr rising_history 14 = Inr 0
   \<and> trend_decide_action exact_pandas small_trend_strategy rising_history 6 = Inr (HOLD, 0, small_trend_strategy)"
proof -
  have t1: "config example_trend_strategy = TrendFollowing 20 50 14 55 (5 / 100) (2 / 100)"
    by (simp add: example_trend_strategy_def set_capital_def AtlasStrategy_init_def)
  have len: "int (length rising_history) < 50" "int (length rising_history) < 20"
    by (simp_all add: rising_history_def)
  have m1: "config example_mr_strategy = MeanReversion 20 2 14 40 (3 / 100) (15 / 1000)"
    by (simp add: example_mr_strategy_def set_capital_def AtlasStrategy_init_def)
  have l1: "live_config example_live_strategy = TrendFollowing 20 50 14 55 (5 / 100) (2 / 100)"
    by (simp add: example_live_strategy_def)
  have l2: "live_config example_live_mr_strategy = MeanReversion 20 2 14 40 (3 / 100) (15 / 1000)"
    by (simp add: example_live_mr_strategy_def)
  have sh: "short_history short_tick 50" "short_history short_tick 20"
    by (simp_all add: short_history_def short_tick_def)
  have cl: "map Close rising_history = [1, 2, 6]"
    by (simp add: rising_history_def)
  have sma: "rolling_last 2 (Series_mean exact_pandas) (map Close rising_history) = Inr (Some 4)"
    "rolling_last 3 (Series_mean exact_pandas) (map Close rising_history) = Inr (Some 3)"
    unfolding cl by (simp_all add: rolling_last_def exact_pandas_def exact_mean_def)
  have gr: "np_gradient [1, 2, 6] = Inr [1, 5 / 2, 4]"
    by (simp add: np_gradient_def upt_rec)
  have rsi: "approx_rsi 2 (map Close rising_history) = Inr (Some 650000000000)"
    unfolding cl by (simp add: approx_rsi_def gr rolling_last_def rsi_ratio_def)
  have s0: "shares small_trend_strategy = 0"
    by (simp add: small_trend_strategy_def set_capital_def)
  have atr: "calculate_atr rising_history 14 = Inr 0"
    by (simp add: calculate_atr_def rising_history_def)
  have cfg: "config small_trend_strategy = TrendFollowing 2 3 2 55 (5 / 100) (2 / 100)"
    by (simp add: small_trend_strategy_def set_capital_def AtlasStrategy_init_def)
  have ex: "\<exists>r. trend_decide_action exact_pandas small_trend_strategy rising_history 6 = Inr r"
    by (simp add: trend_decide_action_def cfg sma rsi atr s0 gt_nan_def)
  note w1 = warm_up_and_zero_volatility_hold[where s = example_trend_strategy and sw = 20 and lw = 50
      and rw = 14 and thr = 55 and tp = "5 / 100" and sl = "2 / 100" and history = rising_history
      and lib = exact_pandas and p = 6]
  note w2 = warm_up_and_zero_volatility_hold[where s = example_mr_strategy and w = 20 and k = 2
      and rw = 14 and othr = 40 and tp = "3 / 100" and sl = "15 / 1000" and history = rising_history
      and lib = exact_pandas and p = 6]
  note w3 = warm_up_and_zero_volatility_hold[where ls = example_live_strategy and sw = 20 and lw = 50
      and rw = 14 and thr = 55 and tp = "5 / 100" and sl = "2 / 100" and tk = short_tick
      and lib = exact_pandas and rsi_fn = no_rsi and symbol = "''INFY.NS''"]
  note w4 = warm_up_and_zero_volatility_hold[where ls = example_live_mr_strategy and w = 20 and k = 2
      and rw = 14 and othr = 40 and tp = "3 / 100" and sl = "15 / 1000" and tk = short_tick
      and lib = exact_pandas and rsi_fn = no_rsi and symbol = "''INFY.NS''"]
  note w5 = warm_up_and_zero_volatility_hold[where s = small_trend_strategy and history = rising_history
      and lib = exact_pandas and p = 6 and atr = 0]
  have a: "trend_decide_action exact_pandas example_trend_strategy rising_history 6 = Inr (HOLD, 0, example_trend_strategy)"
    using w1 t1 len by blast
  have b: "mean_reversion_decide_action exact_pandas example_mr_strategy rising_history 6 = Inr (HOLD, 0, example_mr_strategy)"
    using w2 m1 len by blast
  have c: "live_trend_decide_action exact_pandas no_rsi example_live_strategy ''INFY.NS'' short_tick
        = Inr (HOLD, example_live_strategy)"
    using w3 l1 sh by blast
  have d: "live_mean_reversion_decide_action exact_pandas no_rsi example_live_mr_strategy ''INFY.NS'' short_tick
        = Inr (HOLD, example_live_mr_strategy)"
    using w4 l2 sh by blast
  have e: "trend_decide_action exact_pandas small_trend_strategy rising_history 6 = Inr (HOLD, 0, small_trend_strategy)"
    using w5 atr s0 ex by fastforce
  show ?thesis
    by (intro conjI t1 len a m1 b l1 sh c l2 d sma rsi s0 atr e)
qed

end
